theory Spec2Isabelle
  imports Main "HOL-Library.Word"
begin

unbundle bit_operations_syntax

section \<open>Outcomes, machine types and memory\<close>

text \<open>
  \<open>GOOGLE_SMART_CARD_CHECK\<close> and \<open>GOOGLE_SMART_CARD_NOTREACHED\<close> terminate the process when
  they fail. A function that contains one returns an \<open>outcome\<close>: \<open>Abort\<close> when a check
  failed, \<open>Return v\<close> when the function returned \<open>v\<close> to its caller.
\<close>

datatype 'a outcome = Abort | Return 'a

type_synonym uint8 = "8 word"
type_synonym uint16 = "16 word"

text \<open>
  Caller buffers live in a byte-addressed store. A pointer is an address; \<open>nullptr\<close> is
  address 0. The store is total, so a write through a pointer past the end of the caller's
  buffer is visible as a change of the bytes behind the buffer.
\<close>

type_synonym addr = nat
type_synonym memory = "addr \<Rightarrow> uint8"

definition nullptr :: addr where
  "nullptr = 0"

text \<open>
  \<open>pp::VarArrayBuffer\<close> is a byte array of the platform binding. \<open>ByteLength()\<close> returns
  its size as a 32-bit unsigned integer; \<open>static_cast<int>\<close> (and the implicit conversion
  to an \<open>int\<close> field) reinterprets that value as a 32-bit two's complement integer.
\<close>

definition ByteLength :: "uint8 list \<Rightarrow> 32 word" where
  "ByteLength d = of_nat (length d)"

definition static_cast_int :: "32 word \<Rightarrow> int" where
  "static_cast_int w = sint w"

text \<open>
  \<open>std::copy_n(first, n, dst)\<close>: for every non-negative \<open>i < n\<close> the byte \<open>first[i]\<close> is
  stored at \<open>dst + i\<close>; a count that is zero or negative copies nothing.
\<close>

definition copy_n :: "uint8 list \<Rightarrow> int \<Rightarrow> addr \<Rightarrow> memory \<Rightarrow> memory" where
  "copy_n first n dst mem =
     (\<lambda>a. if dst \<le> a \<and> a < dst + nat n then first ! (a - dst) else mem a)"

text \<open>\<open>MakeVarArrayBuffer(data, size)\<close>: a fresh byte array holding \<open>size\<close> bytes read at \<open>data\<close>.\<close>

definition MakeVarArrayBuffer :: "memory \<Rightarrow> addr \<Rightarrow> nat \<Rightarrow> uint8 list" where
  "MakeVarArrayBuffer mem data size_in_bytes = map mem [data ..< data + size_in_bytes]"

section \<open>Constants of the libusb interface\<close>

text \<open>
  Modelled from the spec: the constants of \<open>libusb.h\<close>, which is not among the sources. The
  spec fixes the control setup block at 8 bytes and the status codes as negative numbers;
  the values are those of the libusb 1.0 interface.
\<close>

definition LIBUSB_SUCCESS :: int where "LIBUSB_SUCCESS = 0"
definition LIBUSB_ERROR_INVALID_PARAM :: int where "LIBUSB_ERROR_INVALID_PARAM = - 2"
definition LIBUSB_ERROR_NOT_FOUND :: int where "LIBUSB_ERROR_NOT_FOUND = - 5"
definition LIBUSB_ERROR_TIMEOUT :: int where "LIBUSB_ERROR_TIMEOUT = - 7"
definition LIBUSB_ERROR_NOT_SUPPORTED :: int where "LIBUSB_ERROR_NOT_SUPPORTED = - 12"
definition LIBUSB_ERROR_OTHER :: int where "LIBUSB_ERROR_OTHER = - 99"

definition LIBUSB_TRANSFER_TYPE_CONTROL :: uint8 where "LIBUSB_TRANSFER_TYPE_CONTROL = 0"
definition LIBUSB_TRANSFER_TYPE_ISOCHRONOUS :: uint8 where "LIBUSB_TRANSFER_TYPE_ISOCHRONOUS = 1"
definition LIBUSB_TRANSFER_TYPE_BULK :: uint8 where "LIBUSB_TRANSFER_TYPE_BULK = 2"
definition LIBUSB_TRANSFER_TYPE_INTERRUPT :: uint8 where "LIBUSB_TRANSFER_TYPE_INTERRUPT = 3"

definition LIBUSB_TRANSFER_SHORT_NOT_OK :: uint8 where "LIBUSB_TRANSFER_SHORT_NOT_OK = 1"
definition LIBUSB_TRANSFER_FREE_BUFFER :: uint8 where "LIBUSB_TRANSFER_FREE_BUFFER = 2"
definition LIBUSB_TRANSFER_FREE_TRANSFER :: uint8 where "LIBUSB_TRANSFER_FREE_TRANSFER = 4"
definition LIBUSB_TRANSFER_ADD_ZERO_PACKET :: uint8 where "LIBUSB_TRANSFER_ADD_ZERO_PACKET = 8"

definition LIBUSB_ENDPOINT_DIR_MASK :: uint8 where "LIBUSB_ENDPOINT_DIR_MASK = 0x80"
definition LIBUSB_ENDPOINT_OUT :: uint8 where "LIBUSB_ENDPOINT_OUT = 0x00"

definition LIBUSB_CONTROL_SETUP_SIZE :: nat where "LIBUSB_CONTROL_SETUP_SIZE = 8"

datatype libusb_transfer_status =
    LIBUSB_TRANSFER_COMPLETED
  | LIBUSB_TRANSFER_ERROR
  | LIBUSB_TRANSFER_TIMED_OUT
  | LIBUSB_TRANSFER_CANCELLED
  | LIBUSB_TRANSFER_STALL
  | LIBUSB_TRANSFER_NO_DEVICE
  | LIBUSB_TRANSFER_OVERFLOW

section \<open>Results of the platform binding\<close>

text \<open>
  \<open>chrome_usb::TransferResultInfo\<close> carries an optional numeric result code and an optional
  response byte array. \<open>RequestResult<T>\<close> is the envelope of every upstream call: it
  succeeded with a payload, it failed with an error message, or it was cancelled.
\<close>

record TransferResultInfo =
  result_code :: "int option"
  data :: "uint8 list option"

text \<open>
  Modelled from the spec: \<open>chrome_usb::kTransferResultInfoSuccessResultCode\<close>, declared
  outside the sources; the platform reports success as result code 0.
\<close>

definition kTransferResultInfoSuccessResultCode :: int where
  "kTransferResultInfoSuccessResultCode = 0"

datatype 'a RequestResult = Succeeded 'a | Failed string | Canceled

fun is_successful :: "'a RequestResult \<Rightarrow> bool" where
  "is_successful (Succeeded _) = True"
| "is_successful _ = False"

section \<open>Finalizing a transfer result\<close>

text \<open>
  \<open>ProcessLibusbTransferResult\<close>. The out-parameter \<open>actual_length\<close> is a nullable pointer
  to an \<open>int\<close>: \<open>None\<close> is the null pointer, \<open>Some v\<close> a cell holding \<open>v\<close>. The function
  returns the status, the cell after the call and the store after the call.
\<close>

definition ProcessLibusbTransferResult ::
  "TransferResultInfo \<Rightarrow> bool \<Rightarrow> int \<Rightarrow> addr \<Rightarrow> int option \<Rightarrow> memory
     \<Rightarrow> libusb_transfer_status \<times> int option \<times> memory" where
  "ProcessLibusbTransferResult transfer_result_info is_short_not_ok len data_ptr actual_length mem =
     (case result_code transfer_result_info of
        None \<Rightarrow> (LIBUSB_TRANSFER_ERROR, actual_length, mem)
      | Some code \<Rightarrow>
          if code \<noteq> kTransferResultInfoSuccessResultCode
          then (LIBUSB_TRANSFER_ERROR, actual_length, mem)
          else
            let (actual_length_value, mem') =
                  (case data transfer_result_info of
                     Some d \<Rightarrow>
                       let n = min (static_cast_int (ByteLength d)) len
                       in (n, if n \<noteq> 0 then copy_n d n data_ptr mem else mem)
                   | None \<Rightarrow> (len, mem));
                actual_length' =
                  (if actual_length \<noteq> None then Some actual_length_value else actual_length)
            in if is_short_not_ok \<and> actual_length_value < len
               then (LIBUSB_TRANSFER_ERROR, actual_length', mem')
               else (LIBUSB_TRANSFER_COMPLETED, actual_length', mem'))"

definition LibusbTransferStatusToLibusbErrorCode :: "libusb_transfer_status \<Rightarrow> int" where
  "LibusbTransferStatusToLibusbErrorCode transfer_status =
     (case transfer_status of
        LIBUSB_TRANSFER_COMPLETED \<Rightarrow> LIBUSB_SUCCESS
      | LIBUSB_TRANSFER_TIMED_OUT \<Rightarrow> LIBUSB_ERROR_TIMEOUT
      | _ \<Rightarrow> LIBUSB_ERROR_OTHER)"


section \<open>Descriptor records of the platform binding\<close>

text \<open>
  The records of \<open>chrome_usb\<close> that the translator reads. Their declarations are outside
  the sources; the fields are the ones the translator accesses, numeric fields are
  integers. The enumerations have exactly the enumerators the \<open>switch\<close> statements name,
  so the \<open>default: GOOGLE_SMART_CARD_NOTREACHED\<close> branches have no input in the model.
\<close>

datatype EndpointDescriptorType = kControl | kInterrupt | kIsochronous | kBulk

datatype EndpointDescriptorSynchronization = kAsynchronous | kAdaptive | kSynchronous

datatype EndpointDescriptorUsage = kData | kFeedback | kExplicitFeedback

record EndpointDescriptor =
  address :: int
  ep_type :: EndpointDescriptorType
  synchronization :: "EndpointDescriptorSynchronization option"
  usage :: "EndpointDescriptorUsage option"
  maximum_packet_size :: int
  polling_interval :: "int option"
  ep_extra_data :: "uint8 list"

record InterfaceDescriptor =
  interface_number :: int
  interface_class :: int
  interface_subclass :: int
  interface_protocol :: int
  endpoints :: "EndpointDescriptor list"
  if_extra_data :: "uint8 list"

record ConfigDescriptor =
  active :: bool
  configuration_value :: int
  remote_wakeup :: bool
  self_powered :: bool
  max_power :: int
  interfaces :: "InterfaceDescriptor list"
  cfg_extra_data :: "uint8 list"

record Device =
  device :: int
  vendor_id :: int
  product_id :: int
  version :: "int option"

section \<open>Descriptor structures of the libusb interface\<close>

record libusb_endpoint_descriptor =
  ep_bLength :: uint8
  ep_bDescriptorType :: uint8
  bEndpointAddress :: uint8
  ep_bmAttributes :: uint8
  wMaxPacketSize :: uint16
  bInterval :: uint8
  bRefresh :: uint8
  bSynchAddress :: uint8
  ep_extra :: "uint8 list option"
  ep_extra_length :: int

record libusb_interface_descriptor =
  if_bLength :: uint8
  if_bDescriptorType :: uint8
  bInterfaceNumber :: uint8
  bAlternateSetting :: uint8
  bNumEndpoints :: uint8
  bInterfaceClass :: uint8
  bInterfaceSubClass :: uint8
  bInterfaceProtocol :: uint8
  iInterface :: uint8
  endpoint :: "libusb_endpoint_descriptor list"
  if_extra :: "uint8 list option"
  if_extra_length :: int

record libusb_interface =
  altsetting :: "libusb_interface_descriptor list"
  num_altsetting :: int

record libusb_config_descriptor =
  cfg_bLength :: uint8
  cfg_bDescriptorType :: uint8
  wTotalLength :: uint16
  bNumInterfaces :: uint8
  bConfigurationValue :: uint8
  iConfiguration :: uint8
  cfg_bmAttributes :: uint8
  MaxPower :: uint8
  interface :: "libusb_interface list"
  cfg_extra :: "uint8 list option"
  cfg_extra_length :: int

text \<open>
  \<open>sizeof\<close> of the three descriptor structures depends on the target's pointer width, so
  the sizes are a parameter of the translator.
\<close>

record struct_sizes =
  sizeof_libusb_endpoint_descriptor :: nat
  sizeof_libusb_interface_descriptor :: nat
  sizeof_libusb_config_descriptor :: nat

definition LIBUSB_DT_DEVICE :: uint8 where "LIBUSB_DT_DEVICE = 0x01"
definition LIBUSB_DT_CONFIG :: uint8 where "LIBUSB_DT_CONFIG = 0x02"
definition LIBUSB_DT_INTERFACE :: uint8 where "LIBUSB_DT_INTERFACE = 0x04"
definition LIBUSB_DT_ENDPOINT :: uint8 where "LIBUSB_DT_ENDPOINT = 0x05"

definition LIBUSB_ISO_SYNC_TYPE_ASYNC :: uint8 where "LIBUSB_ISO_SYNC_TYPE_ASYNC = 1"
definition LIBUSB_ISO_SYNC_TYPE_ADAPTIVE :: uint8 where "LIBUSB_ISO_SYNC_TYPE_ADAPTIVE = 2"
definition LIBUSB_ISO_SYNC_TYPE_SYNC :: uint8 where "LIBUSB_ISO_SYNC_TYPE_SYNC = 3"

definition LIBUSB_ISO_USAGE_TYPE_DATA :: uint8 where "LIBUSB_ISO_USAGE_TYPE_DATA = 0"
definition LIBUSB_ISO_USAGE_TYPE_FEEDBACK :: uint8 where "LIBUSB_ISO_USAGE_TYPE_FEEDBACK = 1"
definition LIBUSB_ISO_USAGE_TYPE_IMPLICIT :: uint8 where "LIBUSB_ISO_USAGE_TYPE_IMPLICIT = 2"

definition kFakeDeviceBusNumber :: uint8 where
  "kFakeDeviceBusNumber = 42"

definition kLibusbConfigDescriptorBmAttributesRemoteWakeup :: uint8 where
  "kLibusbConfigDescriptorBmAttributesRemoteWakeup = push_bit 5 1"

definition kLibusbConfigDescriptorBmAttributesSelfPowered :: uint8 where
  "kLibusbConfigDescriptorBmAttributesSelfPowered = push_bit 6 1"

definition kLibusbTransferTypeMaskShift :: nat where
  "kLibusbTransferTypeMaskShift = 0"

definition kLibusbIsoSyncTypeMaskShift :: nat where
  "kLibusbIsoSyncTypeMaskShift = 2"

definition kLibusbIsoUsageTypeMaskShift :: nat where
  "kLibusbIsoUsageTypeMaskShift = 4"

section \<open>Descriptor translation\<close>

text \<open>
  The first \<open>CopyRawData\<close> allocates a fresh array and copies \<open>byte_count\<close> bytes into it;
  it is only called with the whole vector. The second returns \<open>nullptr\<close> (\<open>None\<close>) for an
  empty array. A returned array is a value of its own: it shares nothing with the record
  it was copied from.
\<close>

definition CopyRawData_bytes :: "uint8 list \<Rightarrow> nat \<Rightarrow> uint8 list" where
  "CopyRawData_bytes data_vector byte_count = take byte_count data_vector"

definition CopyRawData :: "uint8 list \<Rightarrow> uint8 list option" where
  "CopyRawData data_vector =
     (if data_vector = [] then None
      else Some (CopyRawData_bytes data_vector (length data_vector)))"

definition ChromeUsbEndpointDescriptorTypeToLibusbMask :: "EndpointDescriptorType \<Rightarrow> uint8" where
  "ChromeUsbEndpointDescriptorTypeToLibusbMask v =
     (case v of
        kControl \<Rightarrow> push_bit kLibusbTransferTypeMaskShift LIBUSB_TRANSFER_TYPE_CONTROL
      | kInterrupt \<Rightarrow> push_bit kLibusbTransferTypeMaskShift LIBUSB_TRANSFER_TYPE_INTERRUPT
      | kIsochronous \<Rightarrow> push_bit kLibusbTransferTypeMaskShift LIBUSB_TRANSFER_TYPE_ISOCHRONOUS
      | kBulk \<Rightarrow> push_bit kLibusbTransferTypeMaskShift LIBUSB_TRANSFER_TYPE_BULK)"

definition ChromeUsbEndpointDescriptorSynchronizationToLibusbMask ::
  "EndpointDescriptorSynchronization \<Rightarrow> uint8" where
  "ChromeUsbEndpointDescriptorSynchronizationToLibusbMask v =
     (case v of
        kAsynchronous \<Rightarrow> push_bit kLibusbIsoSyncTypeMaskShift LIBUSB_ISO_SYNC_TYPE_ASYNC
      | kAdaptive \<Rightarrow> push_bit kLibusbIsoSyncTypeMaskShift LIBUSB_ISO_SYNC_TYPE_ADAPTIVE
      | kSynchronous \<Rightarrow> push_bit kLibusbIsoSyncTypeMaskShift LIBUSB_ISO_SYNC_TYPE_SYNC)"

definition ChromeUsbEndpointDescriptorUsageToLibusbMask :: "EndpointDescriptorUsage \<Rightarrow> uint8" where
  "ChromeUsbEndpointDescriptorUsageToLibusbMask v =
     (case v of
        kData \<Rightarrow> push_bit kLibusbIsoUsageTypeMaskShift LIBUSB_ISO_USAGE_TYPE_DATA
      | kFeedback \<Rightarrow> push_bit kLibusbIsoUsageTypeMaskShift LIBUSB_ISO_USAGE_TYPE_FEEDBACK
      | kExplicitFeedback \<Rightarrow> push_bit kLibusbIsoUsageTypeMaskShift LIBUSB_ISO_USAGE_TYPE_IMPLICIT)"

text \<open>
  \<open>FillLibusbEndpointDescriptor\<close>. The result pointer is the address of an array element
  the caller has just allocated, so its null check cannot fail. The two checks on an
  isochronous endpoint are taken in the order of the source.
\<close>

definition FillLibusbEndpointDescriptor ::
  "struct_sizes \<Rightarrow> EndpointDescriptor \<Rightarrow> libusb_endpoint_descriptor outcome" where
  "FillLibusbEndpointDescriptor sz chrome_usb_descriptor =
     (let attributes = 0 OR ChromeUsbEndpointDescriptorTypeToLibusbMask (ep_type chrome_usb_descriptor)
      in case (if ep_type chrome_usb_descriptor = kIsochronous
               then (case synchronization chrome_usb_descriptor of
                       None \<Rightarrow> Abort
                     | Some s \<Rightarrow>
                         (case usage chrome_usb_descriptor of
                            None \<Rightarrow> Abort
                          | Some u \<Rightarrow>
                              Return (attributes
                                OR ChromeUsbEndpointDescriptorSynchronizationToLibusbMask s
                                OR ChromeUsbEndpointDescriptorUsageToLibusbMask u)))
               else Return attributes) of
           Abort \<Rightarrow> Abort
         | Return attributes' \<Rightarrow>
             Return \<lparr>ep_bLength = of_nat (sizeof_libusb_endpoint_descriptor sz),
                     ep_bDescriptorType = LIBUSB_DT_ENDPOINT,
                     bEndpointAddress = of_int (address chrome_usb_descriptor),
                     ep_bmAttributes = attributes',
                     wMaxPacketSize = of_int (maximum_packet_size chrome_usb_descriptor),
                     bInterval = (case polling_interval chrome_usb_descriptor of
                                    Some p \<Rightarrow> of_int p | None \<Rightarrow> 0),
                     bRefresh = 0,
                     bSynchAddress = 0,
                     ep_extra = CopyRawData (ep_extra_data chrome_usb_descriptor),
                     ep_extra_length =
                       static_cast_int (ByteLength (ep_extra_data chrome_usb_descriptor))\<rparr>)"

text \<open>
  The loops that fill an array element by element: the first element whose translation
  aborts aborts the whole loop.
\<close>

fun fill_array :: "('a \<Rightarrow> 'b outcome) \<Rightarrow> 'a list \<Rightarrow> 'b list outcome" where
  "fill_array f [] = Return []"
| "fill_array f (x # xs) =
     (case f x of
        Abort \<Rightarrow> Abort
      | Return y \<Rightarrow> (case fill_array f xs of Abort \<Rightarrow> Abort | Return ys \<Rightarrow> Return (y # ys)))"

definition FillLibusbInterfaceDescriptor ::
  "struct_sizes \<Rightarrow> InterfaceDescriptor \<Rightarrow> libusb_interface_descriptor outcome" where
  "FillLibusbInterfaceDescriptor sz chrome_usb_descriptor =
     (case fill_array (FillLibusbEndpointDescriptor sz) (endpoints chrome_usb_descriptor) of
        Abort \<Rightarrow> Abort
      | Return eps \<Rightarrow>
          Return \<lparr>if_bLength = of_nat (sizeof_libusb_interface_descriptor sz),
                  if_bDescriptorType = LIBUSB_DT_INTERFACE,
                  bInterfaceNumber = of_int (interface_number chrome_usb_descriptor),
                  bAlternateSetting = 0,
                  bNumEndpoints = of_nat (length (endpoints chrome_usb_descriptor)),
                  bInterfaceClass = of_int (interface_class chrome_usb_descriptor),
                  bInterfaceSubClass = of_int (interface_subclass chrome_usb_descriptor),
                  bInterfaceProtocol = of_int (interface_protocol chrome_usb_descriptor),
                  iInterface = 0,
                  endpoint = eps,
                  if_extra = CopyRawData (if_extra_data chrome_usb_descriptor),
                  if_extra_length =
                    static_cast_int (ByteLength (if_extra_data chrome_usb_descriptor))\<rparr>)"

definition FillLibusbInterface ::
  "struct_sizes \<Rightarrow> InterfaceDescriptor \<Rightarrow> libusb_interface outcome" where
  "FillLibusbInterface sz chrome_usb_descriptor =
     (case FillLibusbInterfaceDescriptor sz chrome_usb_descriptor of
        Abort \<Rightarrow> Abort
      | Return d \<Rightarrow> Return \<lparr>altsetting = [d], num_altsetting = 1\<rparr>)"

definition FillLibusbConfigDescriptor ::
  "struct_sizes \<Rightarrow> ConfigDescriptor \<Rightarrow> libusb_config_descriptor outcome" where
  "FillLibusbConfigDescriptor sz chrome_usb_descriptor =
     (case fill_array (FillLibusbInterface sz) (interfaces chrome_usb_descriptor) of
        Abort \<Rightarrow> Abort
      | Return ifs \<Rightarrow>
          Return \<lparr>cfg_bLength = of_nat (sizeof_libusb_config_descriptor sz),
                  cfg_bDescriptorType = LIBUSB_DT_CONFIG,
                  wTotalLength = of_nat (sizeof_libusb_config_descriptor sz),
                  bNumInterfaces = of_nat (length (interfaces chrome_usb_descriptor)),
                  bConfigurationValue = of_int (configuration_value chrome_usb_descriptor),
                  iConfiguration = 0,
                  cfg_bmAttributes =
                    (let a = (if remote_wakeup chrome_usb_descriptor
                              then 0 OR kLibusbConfigDescriptorBmAttributesRemoteWakeup else 0)
                     in if self_powered chrome_usb_descriptor
                        then a OR kLibusbConfigDescriptorBmAttributesSelfPowered else a),
                  MaxPower = of_int (max_power chrome_usb_descriptor),
                  interface = ifs,
                  cfg_extra = CopyRawData (cfg_extra_data chrome_usb_descriptor),
                  cfg_extra_length =
                    static_cast_int (ByteLength (cfg_extra_data chrome_usb_descriptor))\<rparr>)"

section \<open>Devices, handles and contexts\<close>

text \<open>
  The opaque types of \<open>libusb_opaque_types.h\<close> (outside the sources), as far as the facade
  reads them: a device holds its platform record and a nullable pointer to its context, a
  handle holds a pointer to its device and the platform's connection handle. A context is
  identified by its address.
\<close>

type_synonym libusb_context = addr
type_synonym ConnectionHandle = int

record libusb_device =
  dev_context :: "libusb_context option"
  chrome_usb_device :: Device

record libusb_device_handle =
  handle_device :: "libusb_device option"
  chrome_usb_connection_handle :: ConnectionHandle

text \<open>
  \<open>LibusbGetActiveConfigDescriptor\<close>. The reply of \<open>GetConfigurations\<close> is an argument. The
  out-parameter \<open>config_descriptor\<close> is a nullable pointer to a pointer variable: \<open>None\<close> is
  the null pointer, \<open>Some v\<close> a variable holding \<open>v\<close>. The loop over the records carries the
  variable's value.
\<close>

fun active_config_loop ::
  "struct_sizes \<Rightarrow> ConfigDescriptor list \<Rightarrow> libusb_config_descriptor option
     \<Rightarrow> libusb_config_descriptor option outcome" where
  "active_config_loop sz [] config_descriptor = Return config_descriptor"
| "active_config_loop sz (chrome_usb_config # rest) config_descriptor =
     (if active chrome_usb_config
      then (if config_descriptor \<noteq> None then Abort
            else (case FillLibusbConfigDescriptor sz chrome_usb_config of
                    Abort \<Rightarrow> Abort
                  | Return d \<Rightarrow> active_config_loop sz rest (Some d)))
      else active_config_loop sz rest config_descriptor)"

definition LibusbGetActiveConfigDescriptor ::
  "struct_sizes \<Rightarrow> ConfigDescriptor list RequestResult \<Rightarrow> libusb_device option
     \<Rightarrow> libusb_config_descriptor option option
     \<Rightarrow> (int \<times> libusb_config_descriptor option option) outcome" where
  "LibusbGetActiveConfigDescriptor sz result dev config_descriptor =
     (if dev = None then Abort
      else if config_descriptor = None then Abort
      else (case result of
              Succeeded chrome_usb_configs \<Rightarrow>
                (case active_config_loop sz chrome_usb_configs None of
                   Abort \<Rightarrow> Abort
                 | Return None \<Rightarrow> Return (LIBUSB_ERROR_OTHER, Some None)
                 | Return (Some d) \<Rightarrow> Return (LIBUSB_SUCCESS, Some (Some d)))
            | _ \<Rightarrow> Return (LIBUSB_ERROR_OTHER, config_descriptor)))"

text \<open>
  \<open>LibusbGetDeviceAddress\<close>: the device id is a 64-bit integer,
  \<open>std::numeric_limits<uint8_t>::max()\<close> is 255, and \<open>static_cast<uint8_t>\<close> keeps the low
  eight bits.
\<close>

definition LibusbGetDeviceAddress :: "libusb_device option \<Rightarrow> uint8 outcome" where
  "LibusbGetDeviceAddress dev =
     (case dev of
        None \<Rightarrow> Abort
      | Some d \<Rightarrow>
          let device_id = device (chrome_usb_device d)
          in if \<not> device_id < 255 then Abort else Return (of_int device_id))"


section \<open>Transfers and transfer requests\<close>

text \<open>
  \<open>libusb_transfer\<close> with the fields the facade reads or writes. The field \<open>type\<close> is an
  \<open>unsigned char\<close> and can hold any byte; \<open>length\<close> and \<open>actual_length\<close> are \<open>int\<close>. The
  completion callback is caller code and is an argument of the functions that invoke it.
\<close>

record libusb_transfer =
  dev_handle :: "libusb_device_handle option"
  flags :: uint8
  transfer_endpoint :: uint8
  transfer_type :: uint8
  timeout :: nat
  status :: libusb_transfer_status
  transfer_length :: int
  actual_length :: int
  buffer :: addr

record libusb_control_setup =
  bmRequestType :: uint8
  bRequest :: uint8
  wValue :: uint16
  wIndex :: uint16
  wLength :: uint16

datatype Direction = kIn | kOut

datatype ControlTransferInfoRecipient = kDevice | kInterface | kEndpoint | kOther

datatype ControlTransferInfoRequestType = kStandard | kClass | kVendor | kReserved

record ControlTransferInfo =
  cti_direction :: Direction
  recipient :: ControlTransferInfoRecipient
  request_type :: ControlTransferInfoRequestType
  request :: int
  cti_value :: int
  cti_index :: int
  cti_length :: "int option"
  cti_data :: "uint8 list option"
  cti_timeout :: "int option"

record GenericTransferInfo =
  gti_direction :: Direction
  gti_endpoint :: int
  gti_length :: "int option"
  gti_data :: "uint8 list option"
  gti_timeout :: "int option"

record TransferResult =
  result_info :: TransferResultInfo

definition LIBUSB_RECIPIENT_DEVICE :: uint8 where "LIBUSB_RECIPIENT_DEVICE = 0x00"
definition LIBUSB_RECIPIENT_INTERFACE :: uint8 where "LIBUSB_RECIPIENT_INTERFACE = 0x01"
definition LIBUSB_RECIPIENT_ENDPOINT :: uint8 where "LIBUSB_RECIPIENT_ENDPOINT = 0x02"
definition LIBUSB_RECIPIENT_OTHER :: uint8 where "LIBUSB_RECIPIENT_OTHER = 0x03"

definition LIBUSB_REQUEST_TYPE_STANDARD :: uint8 where
  "LIBUSB_REQUEST_TYPE_STANDARD = push_bit 5 0x00"
definition LIBUSB_REQUEST_TYPE_CLASS :: uint8 where
  "LIBUSB_REQUEST_TYPE_CLASS = push_bit 5 0x01"
definition LIBUSB_REQUEST_TYPE_VENDOR :: uint8 where
  "LIBUSB_REQUEST_TYPE_VENDOR = push_bit 5 0x02"
definition LIBUSB_REQUEST_TYPE_RESERVED :: uint8 where
  "LIBUSB_REQUEST_TYPE_RESERVED = push_bit 5 0x03"

definition kLibusbRequestRecipientMask :: uint8 where
  "kLibusbRequestRecipientMask =
     LIBUSB_RECIPIENT_DEVICE OR LIBUSB_RECIPIENT_INTERFACE
       OR LIBUSB_RECIPIENT_ENDPOINT OR LIBUSB_RECIPIENT_OTHER"

definition kLibusbRequestTypeMask :: uint8 where
  "kLibusbRequestTypeMask =
     LIBUSB_REQUEST_TYPE_STANDARD OR LIBUSB_REQUEST_TYPE_CLASS
       OR LIBUSB_REQUEST_TYPE_VENDOR OR LIBUSB_REQUEST_TYPE_RESERVED"

text \<open>
  The setup block is read from the first eight bytes of the transfer buffer. The targets of
  the port are little-endian: a 16-bit field is loaded low byte first, and
  \<open>libusb_le16_to_cpu\<close> is the identity.
\<close>

definition load_uint16 :: "memory \<Rightarrow> addr \<Rightarrow> uint16" where
  "load_uint16 mem a = word_cat (mem (a + 1)) (mem a)"

definition libusb_le16_to_cpu :: "uint16 \<Rightarrow> uint16" where
  "libusb_le16_to_cpu x = x"

definition libusb_control_transfer_get_setup :: "libusb_transfer \<Rightarrow> memory \<Rightarrow> libusb_control_setup" where
  "libusb_control_transfer_get_setup transfer mem =
     \<lparr>bmRequestType = mem (buffer transfer),
      bRequest = mem (buffer transfer + 1),
      wValue = load_uint16 mem (buffer transfer + 2),
      wIndex = load_uint16 mem (buffer transfer + 4),
      wLength = load_uint16 mem (buffer transfer + 6)\<rparr>"

definition libusb_control_transfer_get_data :: "libusb_transfer \<Rightarrow> addr" where
  "libusb_control_transfer_get_data transfer = buffer transfer + LIBUSB_CONTROL_SETUP_SIZE"

text \<open>
  \<open>CreateChromeUsbControlTransferInfo\<close>, the overload that takes the setup fields. It
  returns \<open>true\<close> whenever it returns; the request record is its out-parameter.
\<close>

definition CreateChromeUsbControlTransferInfo ::
  "uint8 \<Rightarrow> uint8 \<Rightarrow> uint16 \<Rightarrow> uint16 \<Rightarrow> addr \<Rightarrow> uint16 \<Rightarrow> nat \<Rightarrow> memory
     \<Rightarrow> (bool \<times> ControlTransferInfo) outcome" where
  "CreateChromeUsbControlTransferInfo req_type req val idx data_ptr len tmo mem =
     (let direction = (if req_type AND LIBUSB_ENDPOINT_DIR_MASK = LIBUSB_ENDPOINT_OUT
                       then kOut else kIn);
          r = req_type AND kLibusbRequestRecipientMask;
          t = req_type AND kLibusbRequestTypeMask
      in case (if r = LIBUSB_RECIPIENT_DEVICE then Return kDevice
               else if r = LIBUSB_RECIPIENT_INTERFACE then Return kInterface
               else if r = LIBUSB_RECIPIENT_ENDPOINT then Return kEndpoint
               else if r = LIBUSB_RECIPIENT_OTHER then Return kOther
               else Abort) of
           Abort \<Rightarrow> Abort
         | Return rcp \<Rightarrow>
             (case (if t = LIBUSB_REQUEST_TYPE_STANDARD then Return kStandard
                    else if t = LIBUSB_REQUEST_TYPE_CLASS then Return kClass
                    else if t = LIBUSB_REQUEST_TYPE_VENDOR then Return kVendor
                    else if t = LIBUSB_REQUEST_TYPE_RESERVED then Return kReserved
                    else Abort) of
                Abort \<Rightarrow> Abort
              | Return rt \<Rightarrow>
                  if direction = kOut \<and> data_ptr = nullptr then Abort
                  else Return (True,
                    \<lparr>cti_direction = direction,
                     recipient = rcp,
                     request_type = rt,
                     request = uint req,
                     cti_value = uint (libusb_le16_to_cpu val),
                     cti_index = uint (libusb_le16_to_cpu idx),
                     cti_length = (if direction = kIn then Some (uint len) else None),
                     cti_data = (if direction = kOut
                                 then Some (MakeVarArrayBuffer mem data_ptr (unat len)) else None),
                     cti_timeout = Some (int tmo)\<rparr>)))"

text \<open>
  \<open>CreateChromeUsbControlTransferInfo\<close>, the overload that takes the transfer. The result
  is \<open>None\<close> where the source returns \<open>false\<close>. The comparison of the declared data length
  with \<open>transfer->length - LIBUSB_CONTROL_SETUP_SIZE\<close> is only reached with a length of at
  least the setup size, where the unsigned subtraction does not wrap.
\<close>

definition CreateChromeUsbControlTransferInfo_transfer ::
  "libusb_transfer option \<Rightarrow> memory \<Rightarrow> ControlTransferInfo option outcome" where
  "CreateChromeUsbControlTransferInfo_transfer transfer_ptr mem =
     (case transfer_ptr of
        None \<Rightarrow> Abort
      | Some transfer \<Rightarrow>
          if transfer_type transfer \<noteq> LIBUSB_TRANSFER_TYPE_CONTROL then Abort
          else if transfer_length transfer < 0
                  \<or> transfer_length transfer < int LIBUSB_CONTROL_SETUP_SIZE
          then Return None
          else
            let control_setup = libusb_control_transfer_get_setup transfer mem;
                data_length = libusb_le16_to_cpu (wLength control_setup)
            in if uint data_length \<noteq> transfer_length transfer - int LIBUSB_CONTROL_SETUP_SIZE
               then Return None
               else (case CreateChromeUsbControlTransferInfo
                            (bmRequestType control_setup)
                            (bRequest control_setup)
                            (libusb_le16_to_cpu (wValue control_setup))
                            (libusb_le16_to_cpu (wIndex control_setup))
                            (libusb_control_transfer_get_data transfer)
                            data_length
                            (timeout transfer)
                            mem of
                       Abort \<Rightarrow> Abort
                     | Return (ok, info) \<Rightarrow> Return (if ok then Some info else None)))"

text \<open>
  \<open>CreateChromeUsbGenericTransferInfo\<close>. The \<open>int\<close> length is converted to \<open>size_t\<close> for
  \<open>MakeVarArrayBuffer\<close>; \<open>size_t\<close> has 32 bits on the targets of the port.
\<close>

definition static_cast_size_t :: "int \<Rightarrow> nat" where
  "static_cast_size_t i = nat (i mod 2 ^ 32)"

definition CreateChromeUsbGenericTransferInfo ::
  "uint8 \<Rightarrow> addr \<Rightarrow> int \<Rightarrow> nat \<Rightarrow> memory \<Rightarrow> GenericTransferInfo outcome" where
  "CreateChromeUsbGenericTransferInfo endpoint_address data_ptr len tmo mem =
     (let direction = (if endpoint_address AND LIBUSB_ENDPOINT_DIR_MASK = LIBUSB_ENDPOINT_OUT
                       then kOut else kIn)
      in if direction = kOut \<and> data_ptr = nullptr then Abort
         else Return
           \<lparr>gti_direction = direction,
            gti_endpoint = uint endpoint_address,
            gti_length = (if direction = kIn then Some len else None),
            gti_data = (if direction = kOut
                        then Some (MakeVarArrayBuffer mem data_ptr (static_cast_size_t len))
                        else None),
            gti_timeout = Some (int tmo)\<rparr>)"

definition CreateChromeUsbGenericTransferInfo_transfer ::
  "libusb_transfer option \<Rightarrow> memory \<Rightarrow> GenericTransferInfo outcome" where
  "CreateChromeUsbGenericTransferInfo_transfer transfer_ptr mem =
     (case transfer_ptr of
        None \<Rightarrow> Abort
      | Some transfer \<Rightarrow>
          if \<not> (transfer_type transfer = LIBUSB_TRANSFER_TYPE_BULK
                \<or> transfer_type transfer = LIBUSB_TRANSFER_TYPE_INTERRUPT) then Abort
          else CreateChromeUsbGenericTransferInfo
                 (transfer_endpoint transfer) (buffer transfer)
                 (transfer_length transfer) (timeout transfer) mem)"

section \<open>Contexts of a transfer\<close>

definition SubstituteDefaultContextIfNull ::
  "libusb_context \<Rightarrow> libusb_context option \<Rightarrow> libusb_context" where
  "SubstituteDefaultContextIfNull default_context context_or_nullptr =
     (case context_or_nullptr of Some c \<Rightarrow> c | None \<Rightarrow> default_context)"

definition GetLibusbTransferContext ::
  "libusb_context \<Rightarrow> libusb_transfer option \<Rightarrow> libusb_context option" where
  "GetLibusbTransferContext default_context transfer_ptr =
     (case transfer_ptr of
        None \<Rightarrow> None
      | Some transfer \<Rightarrow>
          (case dev_handle transfer of
             None \<Rightarrow> None
           | Some device_handle \<Rightarrow>
               (case handle_device device_handle of
                  None \<Rightarrow> None
                | Some dev \<Rightarrow>
                    Some (SubstituteDefaultContextIfNull default_context (dev_context dev)))))"

definition GetLibusbTransferContextChecked ::
  "libusb_context \<Rightarrow> libusb_transfer option \<Rightarrow> libusb_context outcome" where
  "GetLibusbTransferContextChecked default_context transfer_ptr =
     (if transfer_ptr = None then Abort
      else (case GetLibusbTransferContext default_context transfer_ptr of
              None \<Rightarrow> Abort
            | Some c \<Rightarrow> Return c))"

section \<open>Submitting a transfer\<close>

definition LibusbAllocTransfer :: "int \<Rightarrow> libusb_transfer outcome" where
  "LibusbAllocTransfer isochronous_packet_count =
     (if isochronous_packet_count \<noteq> 0 then Abort
      else Return \<lparr>dev_handle = None, flags = 0, transfer_endpoint = 0, transfer_type = 0,
                   timeout = 0, status = LIBUSB_TRANSFER_COMPLETED, transfer_length = 0,
                   actual_length = 0, buffer = nullptr\<rparr>)"

text \<open>
  The request that a submission hands to the platform binding, with the connection handle
  and the tracker's request object.
\<close>

type_synonym AsyncRequest = nat

datatype AsyncCall =
    AsyncControlTransfer ConnectionHandle ControlTransferInfo AsyncRequest
  | AsyncBulkTransfer ConnectionHandle GenericTransferInfo AsyncRequest
  | AsyncInterruptTransfer ConnectionHandle GenericTransferInfo AsyncRequest

text \<open>
  \<open>LibusbSubmitTransfer\<close>. \<open>libusb_context::AddAsyncTransfer\<close> is declared outside the
  sources; its outcome is the argument \<open>add_async_transfer\<close>: it aborts, or it returns the
  request object of the registration. The function returns its status code and the call
  it dispatched, if any.
\<close>

definition LibusbSubmitTransfer ::
  "libusb_context \<Rightarrow> (libusb_context \<Rightarrow> AsyncRequest outcome) \<Rightarrow> libusb_transfer option \<Rightarrow> memory
     \<Rightarrow> (int \<times> AsyncCall option) outcome" where
  "LibusbSubmitTransfer default_context add_async_transfer transfer_ptr mem =
     (case transfer_ptr of
        None \<Rightarrow> Abort
      | Some transfer \<Rightarrow>
          (case dev_handle transfer of
             None \<Rightarrow> Abort
           | Some device_handle \<Rightarrow>
               if \<not> (transfer_type transfer = LIBUSB_TRANSFER_TYPE_CONTROL
                     \<or> transfer_type transfer = LIBUSB_TRANSFER_TYPE_BULK
                     \<or> transfer_type transfer = LIBUSB_TRANSFER_TYPE_INTERRUPT) then Abort
               else if flags transfer AND LIBUSB_TRANSFER_ADD_ZERO_PACKET \<noteq> 0
               then Return (LIBUSB_ERROR_NOT_SUPPORTED, None)
               else
                 (case GetLibusbTransferContextChecked default_context transfer_ptr of
                    Abort \<Rightarrow> Abort
                  | Return context \<Rightarrow>
                      (case add_async_transfer context of
                         Abort \<Rightarrow> Abort
                       | Return async_request \<Rightarrow>
                           if transfer_type transfer = LIBUSB_TRANSFER_TYPE_CONTROL then
                             (case CreateChromeUsbControlTransferInfo_transfer transfer_ptr mem of
                                Abort \<Rightarrow> Abort
                              | Return None \<Rightarrow> Return (LIBUSB_ERROR_INVALID_PARAM, None)
                              | Return (Some transfer_info) \<Rightarrow>
                                  Return (LIBUSB_SUCCESS,
                                    Some (AsyncControlTransfer
                                      (chrome_usb_connection_handle device_handle)
                                      transfer_info async_request)))
                           else if transfer_type transfer = LIBUSB_TRANSFER_TYPE_BULK then
                             (case CreateChromeUsbGenericTransferInfo_transfer transfer_ptr mem of
                                Abort \<Rightarrow> Abort
                              | Return transfer_info \<Rightarrow>
                                  Return (LIBUSB_SUCCESS,
                                    Some (AsyncBulkTransfer
                                      (chrome_usb_connection_handle device_handle)
                                      transfer_info async_request)))
                           else if transfer_type transfer = LIBUSB_TRANSFER_TYPE_INTERRUPT then
                             (case CreateChromeUsbGenericTransferInfo_transfer transfer_ptr mem of
                                Abort \<Rightarrow> Abort
                              | Return transfer_info \<Rightarrow>
                                  Return (LIBUSB_SUCCESS,
                                    Some (AsyncInterruptTransfer
                                      (chrome_usb_connection_handle device_handle)
                                      transfer_info async_request)))
                           else Abort))))"

section \<open>Synchronous control transfers\<close>

text \<open>
  \<open>LibusbControlTransfer\<close>. The platform's \<open>ControlTransfer\<close> is the argument
  \<open>control_transfer\<close>. The local \<open>actual_length\<close> is not initialised; it is read only after
  a \<open>LIBUSB_TRANSFER_COMPLETED\<close> status, which the finalization returns only after it has
  written the cell, so the cell's first value is immaterial.
\<close>

definition LibusbControlTransfer ::
  "(ConnectionHandle \<Rightarrow> ControlTransferInfo \<Rightarrow> TransferResult RequestResult)
     \<Rightarrow> libusb_device_handle option \<Rightarrow> uint8 \<Rightarrow> uint8 \<Rightarrow> uint16 \<Rightarrow> uint16 \<Rightarrow> addr \<Rightarrow> uint16
     \<Rightarrow> nat \<Rightarrow> memory \<Rightarrow> (int \<times> memory) outcome" where
  "LibusbControlTransfer control_transfer device_handle_ptr req_type req val idx data_ptr len tmo mem =
     (case device_handle_ptr of
        None \<Rightarrow> Abort
      | Some device_handle \<Rightarrow>
          (case CreateChromeUsbControlTransferInfo req_type req val idx data_ptr len tmo mem of
             Abort \<Rightarrow> Abort
           | Return (ok, transfer_info) \<Rightarrow>
               if \<not> ok then Return (LIBUSB_ERROR_INVALID_PARAM, mem)
               else
                 (case control_transfer (chrome_usb_connection_handle device_handle) transfer_info of
                    Succeeded payload \<Rightarrow>
                      (case ProcessLibusbTransferResult
                              (result_info payload) False (uint len) data_ptr (Some 0) mem of
                         (transfer_status, actual_length_cell, mem') \<Rightarrow>
                           let error_code = LibusbTransferStatusToLibusbErrorCode transfer_status
                           in if error_code = LIBUSB_SUCCESS
                              then Return (case actual_length_cell of Some v \<Rightarrow> v | None \<Rightarrow> 0, mem')
                              else Return (error_code, mem'))
                  | _ \<Rightarrow> Return (LIBUSB_ERROR_OTHER, mem))))"

section \<open>Completing an asynchronous transfer\<close>

text \<open>
  \<open>LibusbFreeTransfer\<close> removes the transfer from its context's tracker, frees the buffer
  when the transfer carries \<open>LIBUSB_TRANSFER_FREE_BUFFER\<close>, and deletes the transfer. The
  result tells whether the buffer was freed.
\<close>

definition LibusbFreeTransfer :: "libusb_transfer option \<Rightarrow> bool outcome" where
  "LibusbFreeTransfer transfer_ptr =
     (case transfer_ptr of
        None \<Rightarrow> Abort
      | Some transfer \<Rightarrow> Return (flags transfer AND LIBUSB_TRANSFER_FREE_BUFFER \<noteq> 0))"

text \<open>
  \<open>ProcessCompletedAsyncTransfer\<close>. The callback receives the finalized transfer and the
  store, and returns both as it leaves them. The result records what the callback
  received, the store afterwards, the transfer afterwards (\<open>None\<close> once it is deleted) and
  whether its buffer was freed.
\<close>

record completion =
  callback_transfer :: libusb_transfer
  callback_memory :: memory
  transfer_after :: "libusb_transfer option"
  memory_after :: memory
  buffer_freed :: bool

definition ProcessCompletedAsyncTransfer ::
  "(libusb_transfer \<Rightarrow> memory \<Rightarrow> libusb_transfer \<times> memory)
     \<Rightarrow> libusb_transfer option \<Rightarrow> TransferResult RequestResult \<Rightarrow> memory \<Rightarrow> completion outcome" where
  "ProcessCompletedAsyncTransfer callback transfer_ptr request_result mem =
     (case transfer_ptr of
        None \<Rightarrow> Abort
      | Some transfer \<Rightarrow>
          (case (case request_result of
                   Succeeded payload \<Rightarrow>
                     let buffer_ptr =
                           (if transfer_type transfer \<noteq> LIBUSB_TRANSFER_TYPE_CONTROL
                            then buffer transfer
                            else libusb_control_transfer_get_data transfer)
                     in (case ProcessLibusbTransferResult
                                (result_info payload)
                                (flags transfer AND LIBUSB_TRANSFER_SHORT_NOT_OK \<noteq> 0)
                                (transfer_length transfer)
                                buffer_ptr
                                (Some (actual_length transfer))
                                mem of
                           (transfer_status, actual_length_cell, mem') \<Rightarrow>
                             (transfer\<lparr>status := transfer_status,
                                       actual_length :=
                                         (case actual_length_cell of
                                            Some v \<Rightarrow> v | None \<Rightarrow> actual_length transfer)\<rparr>,
                              mem'))
                 | Canceled \<Rightarrow> (transfer\<lparr>status := LIBUSB_TRANSFER_CANCELLED\<rparr>, mem)
                 | Failed _ \<Rightarrow> (transfer\<lparr>status := LIBUSB_TRANSFER_ERROR\<rparr>, mem)) of
             (finalized, mem1) \<Rightarrow>
               (case callback finalized mem1 of
                  (transfer2, mem2) \<Rightarrow>
                    if flags transfer2 AND LIBUSB_TRANSFER_FREE_TRANSFER \<noteq> 0
                    then (case LibusbFreeTransfer (Some transfer2) of
                            Abort \<Rightarrow> Abort
                          | Return freed \<Rightarrow>
                              Return \<lparr>callback_transfer = finalized, callback_memory = mem1,
                                      transfer_after = None, memory_after = mem2,
                                      buffer_freed = freed\<rparr>)
                    else Return \<lparr>callback_transfer = finalized, callback_memory = mem1,
                                 transfer_after = Some transfer2, memory_after = mem2,
                                 buffer_freed = False\<rparr>)))"

section \<open>Handling events\<close>

text \<open>
  \<open>LibusbHandleEventsTimeout\<close>. \<open>libusb_context::WaitAndExtractCompletedAsyncTransfer\<close> is
  declared outside the sources; what it yields for a context and a timeout is the argument
  \<open>wait_and_extract\<close>: \<open>None\<close> where it returns \<open>false\<close>, otherwise a transfer that was
  registered at submission, with its result. The function returns its status code and,
  when a transfer was extracted, the record of its completion.
\<close>

definition LibusbHandleEventsTimeout ::
  "libusb_context
     \<Rightarrow> (libusb_context \<Rightarrow> int \<Rightarrow> (libusb_transfer \<times> TransferResult RequestResult) option)
     \<Rightarrow> (libusb_transfer \<Rightarrow> memory \<Rightarrow> libusb_transfer \<times> memory)
     \<Rightarrow> libusb_context option \<Rightarrow> int \<Rightarrow> memory \<Rightarrow> (int \<times> completion option) outcome" where
  "LibusbHandleEventsTimeout default_context wait_and_extract callback context_ptr timeout_seconds mem =
     (let context = SubstituteDefaultContextIfNull default_context context_ptr
      in case wait_and_extract context timeout_seconds of
           Some (transfer, request_result) \<Rightarrow>
             (case ProcessCompletedAsyncTransfer callback (Some transfer) request_result mem of
                Abort \<Rightarrow> Abort
              | Return c \<Rightarrow> Return (LIBUSB_SUCCESS, Some c))
         | None \<Rightarrow> Return (LIBUSB_SUCCESS, None))"

section \<open>Example inputs\<close>

definition example_sizes :: struct_sizes where
  "example_sizes = \<lparr>sizeof_libusb_endpoint_descriptor = 20,
                     sizeof_libusb_interface_descriptor = 24,
                     sizeof_libusb_config_descriptor = 20\<rparr>"

definition example_device :: libusb_device where
  "example_device = \<lparr>dev_context = None,
     chrome_usb_device = \<lparr>device = 1, vendor_id = 0x08E6, product_id = 0x3437, version = None\<rparr>\<rparr>"

definition example_config :: "bool \<Rightarrow> int \<Rightarrow> ConfigDescriptor" where
  "example_config is_active v =
     \<lparr>active = is_active, configuration_value = v, remote_wakeup = False, self_powered = True,
      max_power = 50, interfaces = [], cfg_extra_data = []\<rparr>"

definition example_handle :: libusb_device_handle where
  "example_handle = \<lparr>handle_device = Some example_device, chrome_usb_connection_handle = 7\<rparr>"

text \<open>
  A transfer of the given kind, length and flags on the example handle, with its buffer at
  address 100, and a store whose bytes at 100..107 are a setup block for an inbound
  standard request to the device with \<open>wLength = 1\<close>.
\<close>

definition example_transfer :: "uint8 \<Rightarrow> int \<Rightarrow> uint8 \<Rightarrow> libusb_transfer" where
  "example_transfer kind len transfer_flags =
     \<lparr>dev_handle = Some example_handle, flags = transfer_flags, transfer_endpoint = 0x81,
      transfer_type = kind, timeout = 1000,
      status = LIBUSB_TRANSFER_COMPLETED, transfer_length = len, actual_length = 0,
      buffer = 100\<rparr>"

definition example_setup_memory :: memory where
  "example_setup_memory = (\<lambda>a. if a = 100 then 0x80 else if a = 106 then 1 else 0)"

definition example_endpoint :: "uint8 list \<Rightarrow> EndpointDescriptor" where
  "example_endpoint extra =
     \<lparr>address = 0x81, ep_type = kBulk, synchronization = None, usage = None,
      maximum_packet_size = 64, polling_interval = None, ep_extra_data = extra\<rparr>"

definition example_interface :: "uint8 list \<Rightarrow> InterfaceDescriptor" where
  "example_interface extra =
     \<lparr>interface_number = 0, interface_class = 0x0B, interface_subclass = 0,
      interface_protocol = 0, endpoints = [example_endpoint []], if_extra_data = extra\<rparr>"

text \<open>
  A platform that answers every synchronous control transfer with three bytes, and one
  that fails every request.
\<close>

definition example_upstream ::
  "bool \<Rightarrow> ConnectionHandle \<Rightarrow> ControlTransferInfo \<Rightarrow> TransferResult RequestResult" where
  "example_upstream ok connection_handle transfer_info =
     (if ok
      then Succeeded \<lparr>result_info =
             \<lparr>result_code = Some kTransferResultInfoSuccessResultCode, data = Some [1, 2, 3]\<rparr>\<rparr>
      else Failed ''Transfer failed'')"

text \<open>
  A tracker that holds one cancelled bulk transfer for the default context (address 1) and
  nothing for any other context.
\<close>

definition example_tracker ::
  "libusb_context \<Rightarrow> int \<Rightarrow> (libusb_transfer \<times> TransferResult RequestResult) option" where
  "example_tracker context timeout_seconds =
     (if context = 1 then Some (example_transfer LIBUSB_TRANSFER_TYPE_BULK 64 0, Canceled)
      else None)"

section \<open>The byte store and the length conversion\<close>

text \<open>
  Below \<open>2 ^ 31\<close> bytes the conversion of \<open>ByteLength()\<close> to \<open>int\<close> keeps the byte count.
\<close>

lemma static_cast_int_ByteLength:
  "length d < 2 ^ 31 \<Longrightarrow> static_cast_int (ByteLength d) = int (length d)"
  unfolding static_cast_int_def ByteLength_def
  by (simp add: signed_of_nat signed_take_bit_int_eq_self)

lemma static_cast_int_ByteLength_empty: "static_cast_int (ByteLength []) = 0"
  by (simp add: static_cast_int_def ByteLength_def)

lemma copy_n_nonpositive: "n \<le> 0 \<Longrightarrow> copy_n first n dst mem = mem"
  by (rule ext) (auto simp: copy_n_def)

lemma copy_n_inside: "i < nat n \<Longrightarrow> copy_n first n dst mem (dst + i) = first ! i"
  by (simp add: copy_n_def)

lemma copy_n_outside: "a < dst \<or> dst + nat n \<le> a \<Longrightarrow> copy_n first n dst mem a = mem a"
  by (auto simp add: copy_n_def)

text \<open>
  The count handed to \<open>copy_n\<close> by the finalization never exceeds the size of the response
  vector, so every read of the copy is inside the vector.
\<close>

lemma static_cast_int_le_uint: "static_cast_int w \<le> uint w"
proof -
  have "- (2 ^ 31) \<le> (0 :: int)" by simp
  also have "0 \<le> uint w" by simp
  finally show ?thesis
    by (simp add: static_cast_int_def sint_uint signed_take_bit_int_less_eq_self_iff)
qed

lemma copy_count_within_response:
  "min (static_cast_int (ByteLength d)) len \<le> int (length d)"
proof -
  have "static_cast_int (ByteLength d) \<le> uint (ByteLength d)"
    by (rule static_cast_int_le_uint)
  also have "\<dots> \<le> int (length d)"
    unfolding ByteLength_def
    by (metis (mono_tags, lifting) le_unat_uoi linorder_le_cases of_nat_le_iff of_nat_unat)
  finally show ?thesis by simp
qed

section \<open>Finalization of a transfer result\<close>

lemma ProcessLibusbTransferResult_no_payload:
  assumes "result_code info = Some kTransferResultInfoSuccessResultCode"
    and "data info = None"
  shows "ProcessLibusbTransferResult info short len data_ptr cell mem =
           (LIBUSB_TRANSFER_COMPLETED, map_option (\<lambda>_. len) cell, mem)"
  unfolding ProcessLibusbTransferResult_def using assms
  by (cases cell) (simp_all add: Let_def)

lemma ProcessLibusbTransferResult_payload:
  assumes "result_code info = Some kTransferResultInfoSuccessResultCode"
    and "data info = Some d"
    and "length d < 2 ^ 31"
  shows "ProcessLibusbTransferResult info short len data_ptr cell mem =
           (if short \<and> min (int (length d)) len < len
            then LIBUSB_TRANSFER_ERROR else LIBUSB_TRANSFER_COMPLETED,
            map_option (\<lambda>_. min (int (length d)) len) cell,
            copy_n d (min (int (length d)) len) data_ptr mem)"
proof -
  have cast: "static_cast_int (ByteLength d) = int (length d)"
    using assms(3) by (rule static_cast_int_ByteLength)
  have zero: "(if n \<noteq> 0 then copy_n d n data_ptr mem else mem) = copy_n d n data_ptr mem" for n
    by (simp add: copy_n_nonpositive)
  show ?thesis
    unfolding ProcessLibusbTransferResult_def
    by (cases cell) (simp_all add: assms(1,2) cast zero Let_def)
qed

lemma ProcessLibusbTransferResult_completed_cell:
  assumes finalized: "ProcessLibusbTransferResult info short len data_ptr (Some v) mem =
      (LIBUSB_TRANSFER_COMPLETED, cell, mem')"
    and fits: "\<And>d. data info = Some d \<Longrightarrow> length d < 2 ^ 31"
    and len: "0 \<le> len"
  shows "\<exists>n. cell = Some n \<and> 0 \<le> n"
proof (cases "data info")
  case None
  with finalized len show ?thesis
    by (auto simp: ProcessLibusbTransferResult_def Let_def split: option.splits if_splits)
next
  case (Some d)
  then have "static_cast_int (ByteLength d) = int (length d)"
    using fits by (simp add: static_cast_int_ByteLength)
  with finalized len Some show ?thesis
    by (auto simp: ProcessLibusbTransferResult_def Let_def split: option.splits if_splits)
qed

lemma LibusbFreeTransfer_returns:
  "LibusbFreeTransfer (Some t) = Return (flags t AND LIBUSB_TRANSFER_FREE_BUFFER \<noteq> 0)"
  by (simp add: LibusbFreeTransfer_def)

lemma ProcessCompletedAsyncTransfer_returns:
  "\<exists>c. ProcessCompletedAsyncTransfer callback (Some t) request_result mem = Return c"
  unfolding ProcessCompletedAsyncTransfer_def
  by (simp add: LibusbFreeTransfer_returns split: prod.split RequestResult.split)

text \<open>
  What the completion of an asynchronous transfer copies: the requested length handed to
  the finalization is \<open>transfer->length\<close> for every kind of transfer, and the destination
  of a control transfer is eight bytes into the buffer.
\<close>

lemma async_completion_copy:
  assumes code: "result_code info = Some kTransferResultInfoSuccessResultCode"
    and payload: "data info = Some d"
    and fits: "length d < 2 ^ 31"
  shows "\<exists>c. ProcessCompletedAsyncTransfer callback (Some t)
                (Succeeded \<lparr>result_info = info\<rparr>) mem = Return c
            \<and> actual_length (callback_transfer c) = min (int (length d)) (transfer_length t)
            \<and> callback_memory c =
                copy_n d (min (int (length d)) (transfer_length t))
                  (if transfer_type t \<noteq> LIBUSB_TRANSFER_TYPE_CONTROL then buffer t
                   else buffer t + 8) mem"
  unfolding ProcessCompletedAsyncTransfer_def
  by (simp add: ProcessLibusbTransferResult_payload [OF code payload fits]
      LibusbFreeTransfer_returns libusb_control_transfer_get_data_def
      LIBUSB_CONTROL_SETUP_SIZE_def split: prod.split)

text \<open>
  C1. Let the result carry the success code and a response of fewer than \<open>2 ^ 31\<close> bytes
  (the range in which the conversion of its byte length to \<open>int\<close> keeps the count), and let
  \<open>n\<close> be the minimum of the response length and the requested length. With the
  short-packet-not-ok flag set and \<open>n\<close> below the requested length the status is
  \<open>LIBUSB_TRANSFER_ERROR\<close>, although the first \<open>n\<close> response bytes are in the buffer and the
  actual length is \<open>n\<close>. With the flag unset the status is \<open>LIBUSB_TRANSFER_COMPLETED\<close>,
  with the same bytes copied and the actual length \<open>n\<close>. (The actual length is written
  wherever the caller passed a cell for it.)
\<close>

theorem short_packet_semantics:
  assumes code: "result_code info = Some kTransferResultInfoSuccessResultCode"
    and payload: "data info = Some d"
    and fits: "length d < 2 ^ 31"
  shows "(min (int (length d)) len < len \<longrightarrow>
            ProcessLibusbTransferResult info True len data_ptr cell mem =
              (LIBUSB_TRANSFER_ERROR,
               map_option (\<lambda>_. min (int (length d)) len) cell,
               copy_n d (min (int (length d)) len) data_ptr mem))
       \<and> ProcessLibusbTransferResult info False len data_ptr cell mem =
              (LIBUSB_TRANSFER_COMPLETED,
               map_option (\<lambda>_. min (int (length d)) len) cell,
               copy_n d (min (int (length d)) len) data_ptr mem)"
  by (simp add: ProcessLibusbTransferResult_payload [OF code payload fits])

text \<open>
  The example of the specification: 64 bytes requested, 10 bytes returned. The last of the
  ten bytes is in the buffer in both cases.
\<close>

theorem short_packet_semantics_witness:
  "ProcessLibusbTransferResult
     \<lparr>result_code = Some kTransferResultInfoSuccessResultCode,
      data = Some [1, 2, 3, 4, 5, 6, 7, 8, 9, 10]\<rparr> True 64 100 (Some 0) (\<lambda>_. 0)
     = (LIBUSB_TRANSFER_ERROR, Some 10, copy_n [1, 2, 3, 4, 5, 6, 7, 8, 9, 10] 10 100 (\<lambda>_. 0))
   \<and> ProcessLibusbTransferResult
     \<lparr>result_code = Some kTransferResultInfoSuccessResultCode,
      data = Some [1, 2, 3, 4, 5, 6, 7, 8, 9, 10]\<rparr> False 64 100 (Some 0) (\<lambda>_. 0)
     = (LIBUSB_TRANSFER_COMPLETED, Some 10, copy_n [1, 2, 3, 4, 5, 6, 7, 8, 9, 10] 10 100 (\<lambda>_. 0))
   \<and> copy_n [1, 2, 3, 4, 5, 6, 7, 8, 9, 10] 10 100 (\<lambda>_. 0) 109 = 10"
  using short_packet_semantics
    [of "\<lparr>result_code = Some kTransferResultInfoSuccessResultCode,
          data = Some [1, 2, 3, 4, 5, 6, 7, 8, 9, 10]\<rparr>"
        "[1, 2, 3, 4, 5, 6, 7, 8, 9, 10]" 64 100 "Some 0" "\<lambda>_. 0"]
  by (simp add: copy_n_def)

text \<open>
  C8. A result with the success code and no response data finalizes as
  \<open>LIBUSB_TRANSFER_COMPLETED\<close> with the actual length set to the full requested length and
  the buffer untouched, whatever the short-packet flag; for an asynchronous transfer the
  callback sees \<open>actual_length = length\<close>.
\<close>

theorem missing_payload_reports_requested_length:
  assumes code: "result_code info = Some kTransferResultInfoSuccessResultCode"
    and absent: "data info = None"
  shows "ProcessLibusbTransferResult info short len data_ptr cell mem =
           (LIBUSB_TRANSFER_COMPLETED, map_option (\<lambda>_. len) cell, mem)
       \<and> (\<exists>c. ProcessCompletedAsyncTransfer callback (Some t)
                 (Succeeded \<lparr>result_info = info\<rparr>) mem = Return c
              \<and> actual_length (callback_transfer c) = transfer_length t
              \<and> status (callback_transfer c) = LIBUSB_TRANSFER_COMPLETED
              \<and> callback_memory c = mem)"
proof
  show "ProcessLibusbTransferResult info short len data_ptr cell mem =
           (LIBUSB_TRANSFER_COMPLETED, map_option (\<lambda>_. len) cell, mem)"
    using code absent by (rule ProcessLibusbTransferResult_no_payload)
next
  show "\<exists>c. ProcessCompletedAsyncTransfer callback (Some t)
                 (Succeeded \<lparr>result_info = info\<rparr>) mem = Return c
              \<and> actual_length (callback_transfer c) = transfer_length t
              \<and> status (callback_transfer c) = LIBUSB_TRANSFER_COMPLETED
              \<and> callback_memory c = mem"
    unfolding ProcessCompletedAsyncTransfer_def
    by (simp add: ProcessLibusbTransferResult_no_payload [OF code absent]
        LibusbFreeTransfer_returns split: prod.split)
qed

theorem missing_payload_reports_requested_length_witness:
  "ProcessLibusbTransferResult
     \<lparr>result_code = Some kTransferResultInfoSuccessResultCode, data = None\<rparr>
     True 64 100 (Some 0) (\<lambda>_. 0)
     = (LIBUSB_TRANSFER_COMPLETED, Some 64, (\<lambda>_. 0))
   \<and> (\<exists>c. ProcessCompletedAsyncTransfer (\<lambda>t m. (t, m))
         (Some (example_transfer LIBUSB_TRANSFER_TYPE_BULK 64 LIBUSB_TRANSFER_SHORT_NOT_OK))
         (Succeeded \<lparr>result_info =
            \<lparr>result_code = Some kTransferResultInfoSuccessResultCode, data = None\<rparr>\<rparr>)
         (\<lambda>_. 0) = Return c
       \<and> actual_length (callback_transfer c) = 64
       \<and> status (callback_transfer c) = LIBUSB_TRANSFER_COMPLETED)"
  using missing_payload_reports_requested_length
    [of "\<lparr>result_code = Some kTransferResultInfoSuccessResultCode, data = None\<rparr>"
        True 64 100 "Some 0" "\<lambda>_. 0" "\<lambda>t m. (t, m)"
        "example_transfer LIBUSB_TRANSFER_TYPE_BULK 64 LIBUSB_TRANSFER_SHORT_NOT_OK"]
  by (auto simp: example_transfer_def)

text \<open>
  C4. The claim fails for control transfers: the completion clamps the copy to the
  transfer's total length, which counts the eight setup bytes, not to its data length. A
  control transfer of total length 9 has one data byte, at address 108 (its buffer is
  100..108, and its setup block declares \<open>wLength = 1\<close>). On a successful two-byte response
  the completion copies both bytes to 108 and 109 and reports actual length 2: the byte at
  109, behind the buffer, is overwritten, where the minimum of the response length and
  the data length is 1.
\<close>

theorem control_completion_clamps_to_total_length:
  "\<exists>c. ProcessCompletedAsyncTransfer (\<lambda>t m. (t, m))
          (Some (example_transfer LIBUSB_TRANSFER_TYPE_CONTROL 9 0))
          (Succeeded \<lparr>result_info =
             \<lparr>result_code = Some kTransferResultInfoSuccessResultCode,
              data = Some [0xAA, 0xBB]\<rparr>\<rparr>)
          example_setup_memory = Return c
     \<and> status (callback_transfer c) = LIBUSB_TRANSFER_COMPLETED
     \<and> actual_length (callback_transfer c) = 2
     \<and> callback_memory c 108 = 0xAA
     \<and> callback_memory c 109 = 0xBB
     \<and> example_setup_memory 109 = 0
     \<and> buffer (example_transfer LIBUSB_TRANSFER_TYPE_CONTROL 9 0) + 9 = 109
     \<and> uint (wLength (libusb_control_transfer_get_setup
          (example_transfer LIBUSB_TRANSFER_TYPE_CONTROL 9 0) example_setup_memory)) = 1"
proof -
  let ?info = "\<lparr>result_code = Some kTransferResultInfoSuccessResultCode, data = Some [0xAA, 0xBB]\<rparr>"
  have fin: "ProcessLibusbTransferResult ?info False 9 108 (Some 0) example_setup_memory =
      (LIBUSB_TRANSFER_COMPLETED, Some 2, copy_n [0xAA, 0xBB] 2 108 example_setup_memory)"
    using ProcessLibusbTransferResult_payload
      [of ?info "[0xAA, 0xBB]" False 9 108 "Some 0" example_setup_memory]
    by simp
  have "ProcessCompletedAsyncTransfer (\<lambda>t m. (t, m))
          (Some (example_transfer LIBUSB_TRANSFER_TYPE_CONTROL 9 0))
          (Succeeded \<lparr>result_info = ?info\<rparr>) example_setup_memory =
        Return \<lparr>callback_transfer =
                  (example_transfer LIBUSB_TRANSFER_TYPE_CONTROL 9 0)
                    \<lparr>status := LIBUSB_TRANSFER_COMPLETED, actual_length := 2\<rparr>,
                callback_memory = copy_n [0xAA, 0xBB] 2 108 example_setup_memory,
                transfer_after =
                  Some ((example_transfer LIBUSB_TRANSFER_TYPE_CONTROL 9 0)
                    \<lparr>status := LIBUSB_TRANSFER_COMPLETED, actual_length := 2\<rparr>),
                memory_after = copy_n [0xAA, 0xBB] 2 108 example_setup_memory,
                buffer_freed = False\<rparr>"
    by (simp add: ProcessCompletedAsyncTransfer_def example_transfer_def
        libusb_control_transfer_get_data_def LIBUSB_CONTROL_SETUP_SIZE_def
        LIBUSB_TRANSFER_SHORT_NOT_OK_def LIBUSB_TRANSFER_FREE_TRANSFER_def fin)
  then show ?thesis
    by (simp add: copy_n_def example_setup_memory_def example_transfer_def
        libusb_control_transfer_get_setup_def load_uint16_def)
qed

text \<open>
  The same requested length decides the short-packet test: a control transfer of total
  length 9 that carries the short-packet-not-ok flag ends in \<open>LIBUSB_TRANSFER_ERROR\<close> on a
  response that fills its single data byte.
\<close>

lemma control_completion_short_test_uses_total_length:
  "\<exists>c. ProcessCompletedAsyncTransfer (\<lambda>t m. (t, m))
          (Some (example_transfer LIBUSB_TRANSFER_TYPE_CONTROL 9 LIBUSB_TRANSFER_SHORT_NOT_OK))
          (Succeeded \<lparr>result_info =
             \<lparr>result_code = Some kTransferResultInfoSuccessResultCode, data = Some [0xAA]\<rparr>\<rparr>)
          example_setup_memory = Return c
     \<and> status (callback_transfer c) = LIBUSB_TRANSFER_ERROR
     \<and> actual_length (callback_transfer c) = 1"
proof -
  let ?info = "\<lparr>result_code = Some kTransferResultInfoSuccessResultCode, data = Some [0xAA]\<rparr>"
  have fin: "ProcessLibusbTransferResult ?info True 9 108 (Some 0) example_setup_memory =
      (LIBUSB_TRANSFER_ERROR, Some 1, copy_n [0xAA] 1 108 example_setup_memory)"
    using ProcessLibusbTransferResult_payload
      [of ?info "[0xAA]" True 9 108 "Some 0" example_setup_memory]
    by simp
  show ?thesis
    by (simp add: ProcessCompletedAsyncTransfer_def example_transfer_def
        libusb_control_transfer_get_data_def LIBUSB_CONTROL_SETUP_SIZE_def
        LIBUSB_TRANSFER_SHORT_NOT_OK_def LIBUSB_TRANSFER_FREE_TRANSFER_def fin)
qed

section \<open>Selection of the active configuration\<close>

lemma active_config_loop_none_active:
  "filter active cs = [] \<Longrightarrow> active_config_loop sz cs acc = Return acc"
  by (induction cs arbitrary: acc) (auto split: if_splits)

lemma active_config_loop_second_active:
  "acc \<noteq> None \<Longrightarrow> filter active cs \<noteq> [] \<Longrightarrow> active_config_loop sz cs acc = Abort"
  by (induction cs arbitrary: acc) (auto split: if_splits)

lemma active_config_loop_one_active:
  "filter active cs = [c] \<Longrightarrow>
     active_config_loop sz cs None =
       (case FillLibusbConfigDescriptor sz c of Abort \<Rightarrow> Abort | Return d \<Rightarrow> Return (Some d))"
proof (induction cs)
  case Nil
  then show ?case by simp
next
  case (Cons x xs)
  show ?case
  proof (cases "active x")
    case True
    with Cons.prems have "x = c" and "filter active xs = []" by simp_all
    then show ?thesis
      using True by (simp add: active_config_loop_none_active split: outcome.split)
  next
    case False
    with Cons show ?thesis by simp
  qed
qed

lemma active_config_loop_many_active:
  "2 \<le> length (filter active cs) \<Longrightarrow> active_config_loop sz cs None = Abort"
proof (induction cs)
  case Nil
  then show ?case by simp
next
  case (Cons x xs)
  show ?case
  proof (cases "active x")
    case True
    with Cons.prems have "filter active xs \<noteq> []" by auto
    then show ?thesis
      using True by (simp add: active_config_loop_second_active split: outcome.split)
  next
    case False
    with Cons show ?thesis by simp
  qed
qed

text \<open>
  C3, as stated, fails where two records are flagged active: the loop reaches the second
  one with a descriptor already selected, and the check that only one active configuration
  is expected terminates the process. No status is returned to the caller.
\<close>

theorem two_active_configs_abort:
  "LibusbGetActiveConfigDescriptor example_sizes
     (Succeeded [example_config True 1, example_config True 2])
     (Some example_device) (Some None) = Abort"
  by (simp add: LibusbGetActiveConfigDescriptor_def example_config_def
      FillLibusbConfigDescriptor_def)

text \<open>
  C3, amended. For a device and a result pointer that are not null and a successful reply
  of the platform: with exactly one record flagged active the call translates that record
  and returns \<open>LIBUSB_SUCCESS\<close> with the translation (it aborts only where the translation
  itself does); with no record flagged active it returns the negative status
  \<open>LIBUSB_ERROR_OTHER\<close> and a null descriptor; with two or more records flagged active it
  aborts.
\<close>

theorem active_config_selection:
  assumes "dev \<noteq> None" and "config_descriptor \<noteq> None"
  shows "(filter active cs = [c] \<longrightarrow>
            LibusbGetActiveConfigDescriptor sz (Succeeded cs) dev config_descriptor =
              (case FillLibusbConfigDescriptor sz c of
                 Abort \<Rightarrow> Abort
               | Return d \<Rightarrow> Return (LIBUSB_SUCCESS, Some (Some d))))
       \<and> (filter active cs = [] \<longrightarrow>
            LibusbGetActiveConfigDescriptor sz (Succeeded cs) dev config_descriptor =
              Return (LIBUSB_ERROR_OTHER, Some None))
       \<and> (2 \<le> length (filter active cs) \<longrightarrow>
            LibusbGetActiveConfigDescriptor sz (Succeeded cs) dev config_descriptor = Abort)
       \<and> LIBUSB_ERROR_OTHER < 0"
  using assms
  by (auto simp: LibusbGetActiveConfigDescriptor_def active_config_loop_none_active
      active_config_loop_one_active active_config_loop_many_active LIBUSB_ERROR_OTHER_def
      split: outcome.split)

theorem active_config_selection_witness:
  "LibusbGetActiveConfigDescriptor example_sizes
     (Succeeded [example_config False 1, example_config True 2, example_config False 3])
     (Some example_device) (Some None) =
     (case FillLibusbConfigDescriptor example_sizes (example_config True 2) of
        Abort \<Rightarrow> Abort
      | Return d \<Rightarrow> Return (LIBUSB_SUCCESS, Some (Some d)))
   \<and> FillLibusbConfigDescriptor example_sizes (example_config True 2) \<noteq> Abort
   \<and> LibusbGetActiveConfigDescriptor example_sizes
     (Succeeded [example_config False 1, example_config False 3])
     (Some example_device) (Some None) = Return (LIBUSB_ERROR_OTHER, Some None)
   \<and> LibusbGetActiveConfigDescriptor example_sizes
     (Succeeded [example_config True 1, example_config False 2, example_config True 3])
     (Some example_device) (Some None) = Abort"
  using active_config_selection
      [of "Some example_device" "Some None"
        "[example_config False 1, example_config True 2, example_config False 3]"
        "example_config True 2" example_sizes]
    active_config_selection
      [of "Some example_device" "Some None"
        "[example_config False 1, example_config False 3]" "example_config True 2" example_sizes]
    active_config_selection
      [of "Some example_device" "Some None"
        "[example_config True 1, example_config False 2, example_config True 3]"
        "example_config True 2" example_sizes]
  by (simp add: example_config_def FillLibusbConfigDescriptor_def)

section \<open>The device address\<close>

text \<open>
  C7. The claim fails at both ends of the byte range. The check compares the device id
  with 255 by \<open><\<close>, so the id 255, which fits in one byte, aborts; and the check has no
  lower bound, so the id \<open>-1\<close>, which does not fit, passes it and is returned as 255.
\<close>

theorem device_address_off_by_one:
  "LibusbGetDeviceAddress
     (Some \<lparr>dev_context = None,
            chrome_usb_device = \<lparr>device = 255, vendor_id = 0, product_id = 0, version = None\<rparr>\<rparr>)
     = Abort
   \<and> LibusbGetDeviceAddress
     (Some \<lparr>dev_context = None,
            chrome_usb_device = \<lparr>device = - 1, vendor_id = 0, product_id = 0, version = None\<rparr>\<rparr>)
     = Return 255"
  by (simp add: LibusbGetDeviceAddress_def)

text \<open>What the code does for every device id.\<close>

lemma LibusbGetDeviceAddress_eq:
  "LibusbGetDeviceAddress (Some d) =
     (if device (chrome_usb_device d) < 255 then Return (of_int (device (chrome_usb_device d)))
      else Abort)"
  by (simp add: LibusbGetDeviceAddress_def Let_def)

section \<open>Handling events\<close>

text \<open>
  C9. Whatever the timeout and the context (a null context stands for the default one):
  when the tracker yields nothing, the call returns \<open>LIBUSB_SUCCESS\<close>; when it yields a
  transfer, the completion runs, the callback is invoked, and the call returns
  \<open>LIBUSB_SUCCESS\<close>. No other status is returned, and the call does not abort.
\<close>

theorem handle_events_returns_success:
  "(wait_and_extract (SubstituteDefaultContextIfNull default_context context_ptr) timeout_seconds = None
      \<longrightarrow> LibusbHandleEventsTimeout default_context wait_and_extract callback context_ptr
            timeout_seconds mem = Return (LIBUSB_SUCCESS, None))
   \<and> (\<forall>t r. wait_and_extract (SubstituteDefaultContextIfNull default_context context_ptr)
                timeout_seconds = Some (t, r)
      \<longrightarrow> (\<exists>c. ProcessCompletedAsyncTransfer callback (Some t) r mem = Return c
             \<and> LibusbHandleEventsTimeout default_context wait_and_extract callback context_ptr
                  timeout_seconds mem = Return (LIBUSB_SUCCESS, Some c)))"
proof (intro conjI allI impI)
  assume "wait_and_extract (SubstituteDefaultContextIfNull default_context context_ptr)
      timeout_seconds = None"
  then show "LibusbHandleEventsTimeout default_context wait_and_extract callback context_ptr
      timeout_seconds mem = Return (LIBUSB_SUCCESS, None)"
    by (simp add: LibusbHandleEventsTimeout_def)
next
  fix t r
  assume extracted: "wait_and_extract (SubstituteDefaultContextIfNull default_context context_ptr)
      timeout_seconds = Some (t, r)"
  obtain c where c: "ProcessCompletedAsyncTransfer callback (Some t) r mem = Return c"
    using ProcessCompletedAsyncTransfer_returns by blast
  then show "\<exists>c. ProcessCompletedAsyncTransfer callback (Some t) r mem = Return c
      \<and> LibusbHandleEventsTimeout default_context wait_and_extract callback context_ptr
           timeout_seconds mem = Return (LIBUSB_SUCCESS, Some c)"
    using extracted by (simp add: LibusbHandleEventsTimeout_def)
qed

text \<open>
  A wait on another context that times out, and a wait on the null context that extracts
  the cancelled transfer of the default context.
\<close>

theorem handle_events_returns_success_witness:
  "LibusbHandleEventsTimeout 1 example_tracker (\<lambda>t m. (t, m)) (Some 2) 5 (\<lambda>_. 0) =
     Return (LIBUSB_SUCCESS, None)
   \<and> (\<exists>c. LibusbHandleEventsTimeout 1 example_tracker (\<lambda>t m. (t, m)) None 5 (\<lambda>_. 0) =
          Return (LIBUSB_SUCCESS, Some c))"
  using handle_events_returns_success
      [of example_tracker 1 "Some 2" 5 "\<lambda>t m. (t, m)" "\<lambda>_. 0"]
    handle_events_returns_success
      [of example_tracker 1 None 5 "\<lambda>t m. (t, m)" "\<lambda>_. 0"]
  by (auto simp: example_tracker_def SubstituteDefaultContextIfNull_def)

section \<open>Vendor-specific extra bytes of a descriptor\<close>

lemma CopyRawData_eq:
  "CopyRawData d = (if d = [] then None else Some d)"
  by (simp add: CopyRawData_def CopyRawData_bytes_def)

text \<open>
  C10. Whenever the translation of an endpoint, interface or configuration record returns
  a structure: an empty extra-bytes payload gives a null \<open>extra\<close> pointer and
  \<open>extra_length = 0\<close>; a non-empty payload (below \<open>2 ^ 31\<close> bytes, the range in which the
  conversion of its byte length to the \<open>int\<close> field keeps the count) gives an array with
  exactly those bytes and \<open>extra_length\<close> equal to their number. The array is a value of
  the translated structure and shares nothing with the platform record.
\<close>

theorem extra_bytes_translation:
  "(FillLibusbEndpointDescriptor sz e = Return re \<longrightarrow>
      (ep_extra_data e = [] \<longrightarrow> ep_extra re = None \<and> ep_extra_length re = 0)
    \<and> (ep_extra_data e \<noteq> [] \<and> length (ep_extra_data e) < 2 ^ 31 \<longrightarrow>
         ep_extra re = Some (ep_extra_data e)
       \<and> ep_extra_length re = int (length (ep_extra_data e))))
 \<and> (FillLibusbInterfaceDescriptor sz i = Return ri \<longrightarrow>
      (if_extra_data i = [] \<longrightarrow> if_extra ri = None \<and> if_extra_length ri = 0)
    \<and> (if_extra_data i \<noteq> [] \<and> length (if_extra_data i) < 2 ^ 31 \<longrightarrow>
         if_extra ri = Some (if_extra_data i)
       \<and> if_extra_length ri = int (length (if_extra_data i))))
 \<and> (FillLibusbConfigDescriptor sz c = Return rc \<longrightarrow>
      (cfg_extra_data c = [] \<longrightarrow> cfg_extra rc = None \<and> cfg_extra_length rc = 0)
    \<and> (cfg_extra_data c \<noteq> [] \<and> length (cfg_extra_data c) < 2 ^ 31 \<longrightarrow>
         cfg_extra rc = Some (cfg_extra_data c)
       \<and> cfg_extra_length rc = int (length (cfg_extra_data c))))"
proof (intro conjI impI)
  assume "FillLibusbEndpointDescriptor sz e = Return re"
  then have r: "ep_extra re = CopyRawData (ep_extra_data e)"
      "ep_extra_length re = static_cast_int (ByteLength (ep_extra_data e))"
    by (auto simp: FillLibusbEndpointDescriptor_def Let_def split: outcome.splits)
  show "ep_extra_data e = [] \<Longrightarrow> ep_extra re = None"
    by (simp add: r CopyRawData_eq)
  show "ep_extra_data e = [] \<Longrightarrow> ep_extra_length re = 0"
    by (simp add: r static_cast_int_ByteLength_empty)
  show "ep_extra_data e \<noteq> [] \<and> length (ep_extra_data e) < 2 ^ 31 \<Longrightarrow>
      ep_extra re = Some (ep_extra_data e)"
    by (simp add: r CopyRawData_eq)
  show "ep_extra_data e \<noteq> [] \<and> length (ep_extra_data e) < 2 ^ 31 \<Longrightarrow>
      ep_extra_length re = int (length (ep_extra_data e))"
    by (simp add: r static_cast_int_ByteLength)
next
  assume "FillLibusbInterfaceDescriptor sz i = Return ri"
  then have r: "if_extra ri = CopyRawData (if_extra_data i)"
      "if_extra_length ri = static_cast_int (ByteLength (if_extra_data i))"
    by (auto simp: FillLibusbInterfaceDescriptor_def split: outcome.splits)
  show "if_extra_data i = [] \<Longrightarrow> if_extra ri = None"
    by (simp add: r CopyRawData_eq)
  show "if_extra_data i = [] \<Longrightarrow> if_extra_length ri = 0"
    by (simp add: r static_cast_int_ByteLength_empty)
  show "if_extra_data i \<noteq> [] \<and> length (if_extra_data i) < 2 ^ 31 \<Longrightarrow>
      if_extra ri = Some (if_extra_data i)"
    by (simp add: r CopyRawData_eq)
  show "if_extra_data i \<noteq> [] \<and> length (if_extra_data i) < 2 ^ 31 \<Longrightarrow>
      if_extra_length ri = int (length (if_extra_data i))"
    by (simp add: r static_cast_int_ByteLength)
next
  assume "FillLibusbConfigDescriptor sz c = Return rc"
  then have r: "cfg_extra rc = CopyRawData (cfg_extra_data c)"
      "cfg_extra_length rc = static_cast_int (ByteLength (cfg_extra_data c))"
    by (auto simp: FillLibusbConfigDescriptor_def split: outcome.splits)
  show "cfg_extra_data c = [] \<Longrightarrow> cfg_extra rc = None"
    by (simp add: r CopyRawData_eq)
  show "cfg_extra_data c = [] \<Longrightarrow> cfg_extra_length rc = 0"
    by (simp add: r static_cast_int_ByteLength_empty)
  show "cfg_extra_data c \<noteq> [] \<and> length (cfg_extra_data c) < 2 ^ 31 \<Longrightarrow>
      cfg_extra rc = Some (cfg_extra_data c)"
    by (simp add: r CopyRawData_eq)
  show "cfg_extra_data c \<noteq> [] \<and> length (cfg_extra_data c) < 2 ^ 31 \<Longrightarrow>
      cfg_extra_length rc = int (length (cfg_extra_data c))"
    by (simp add: r static_cast_int_ByteLength)
qed

theorem extra_bytes_translation_witness:
  "(\<exists>re. FillLibusbEndpointDescriptor example_sizes (example_endpoint [1, 2]) = Return re
        \<and> ep_extra re = Some [1, 2] \<and> ep_extra_length re = 2)
   \<and> (\<exists>ri. FillLibusbInterfaceDescriptor example_sizes (example_interface []) = Return ri
        \<and> if_extra ri = None \<and> if_extra_length ri = 0)
   \<and> (\<exists>rc. FillLibusbConfigDescriptor example_sizes
          ((example_config True 1)\<lparr>interfaces := [example_interface [3]],
                                    cfg_extra_data := [9, 9, 9]\<rparr>) = Return rc
        \<and> cfg_extra rc = Some [9, 9, 9] \<and> cfg_extra_length rc = 3)"
proof -
  let ?c = "(example_config True 1)\<lparr>interfaces := [example_interface [3]],
                                    cfg_extra_data := [9, 9, 9]\<rparr>"
  obtain re where re: "FillLibusbEndpointDescriptor example_sizes (example_endpoint [1, 2]) = Return re"
    by (simp add: FillLibusbEndpointDescriptor_def example_endpoint_def)
  obtain ri where ri: "FillLibusbInterfaceDescriptor example_sizes (example_interface []) = Return ri"
    by (simp add: FillLibusbInterfaceDescriptor_def FillLibusbEndpointDescriptor_def
        example_interface_def example_endpoint_def)
  obtain rc where rc: "FillLibusbConfigDescriptor example_sizes ?c = Return rc"
    by (simp add: FillLibusbConfigDescriptor_def FillLibusbInterface_def
        FillLibusbInterfaceDescriptor_def FillLibusbEndpointDescriptor_def
        example_config_def example_interface_def example_endpoint_def)
  show ?thesis
    using extra_bytes_translation
        [of example_sizes "example_endpoint [1, 2]" re "example_interface []" ri ?c rc]
      re ri rc
    by (simp add: example_endpoint_def example_interface_def example_config_def)
qed


section \<open>Building the control request\<close>

text \<open>
  The two \<open>switch\<close> statements on the request-type byte cover every value of their masked
  operand, so their \<open>default\<close> branches are never taken.
\<close>

lemma recipient_mask_cases:
  fixes x :: uint8
  shows "x AND 3 = 0 \<or> x AND 3 = 1 \<or> x AND 3 = 2 \<or> x AND 3 = 3"
proof -
  have "x AND 3 \<le> 3" by (rule word_and_le1)
  then have "unat (x AND 3) \<le> 3" by (simp add: word_le_nat_alt)
  then have "unat (x AND 3) = 0 \<or> unat (x AND 3) = 1 \<or> unat (x AND 3) = 2 \<or> unat (x AND 3) = 3"
    by arith
  then show ?thesis
    by (auto simp: word_unat_eq_iff)
qed

lemma bit_96: "bit (0x60 :: uint8) n \<longleftrightarrow> n = 5 \<or> n = 6"
proof -
  have "(0x60 :: uint8) = push_bit 5 1 OR push_bit 6 1" by simp
  then show ?thesis
    by (auto simp only: bit_or_iff bit_push_bit_iff bit_1_iff possible_bit_word) simp_all
qed

lemma and_96_split:
  fixes x :: uint8
  shows "x AND 0x60 = (if bit x 5 then push_bit 5 1 else 0) OR (if bit x 6 then push_bit 6 1 else 0)"
proof (rule bit_word_eqI)
  fix n assume "n < LENGTH(8)"
  have l: "bit (x AND 0x60) n \<longleftrightarrow> bit x n \<and> (n = 5 \<or> n = 6)"
    by (simp only: bit_and_iff bit_96)
  have r: "bit ((if bit x 5 then push_bit 5 1 else 0) OR (if bit x 6 then push_bit 6 1 else 0) :: uint8) n
      \<longleftrightarrow> (bit x 5 \<and> n = 5) \<or> (bit x 6 \<and> n = 6)"
    by (auto simp only: bit_or_iff bit_push_bit_iff bit_1_iff possible_bit_word bit_0_eq split: if_splits) simp_all
  show "bit (x AND 0x60) n =
      bit ((if bit x 5 then push_bit 5 1 else 0) OR (if bit x 6 then push_bit 6 1 else 0) :: uint8) n"
    unfolding l r by blast
qed

lemma request_type_mask_cases:
  fixes x :: uint8
  shows "x AND 0x60 = 0 \<or> x AND 0x60 = 0x20 \<or> x AND 0x60 = 0x40 \<or> x AND 0x60 = 0x60"
  unfolding and_96_split by simp

lemma kLibusbRequestRecipientMask_eq: "kLibusbRequestRecipientMask = 3"
  by (simp add: kLibusbRequestRecipientMask_def LIBUSB_RECIPIENT_DEVICE_def
      LIBUSB_RECIPIENT_INTERFACE_def LIBUSB_RECIPIENT_ENDPOINT_def LIBUSB_RECIPIENT_OTHER_def)

lemma kLibusbRequestTypeMask_eq: "kLibusbRequestTypeMask = 0x60"
  by (simp add: kLibusbRequestTypeMask_def LIBUSB_REQUEST_TYPE_STANDARD_def
      LIBUSB_REQUEST_TYPE_CLASS_def LIBUSB_REQUEST_TYPE_VENDOR_def
      LIBUSB_REQUEST_TYPE_RESERVED_def)

lemma CreateChromeUsbControlTransferInfo_returns:
  assumes "req_type AND LIBUSB_ENDPOINT_DIR_MASK = LIBUSB_ENDPOINT_OUT \<Longrightarrow> data_ptr \<noteq> nullptr"
  shows "\<exists>info. CreateChromeUsbControlTransferInfo req_type req val idx data_ptr len tmo mem
           = Return (True, info)"
proof -
  have r: "req_type AND 3 = 0 \<or> req_type AND 3 = 1 \<or> req_type AND 3 = 2 \<or> req_type AND 3 = 3"
    by (rule recipient_mask_cases)
  have t: "req_type AND 0x60 = 0 \<or> req_type AND 0x60 = 0x20 \<or> req_type AND 0x60 = 0x40
      \<or> req_type AND 0x60 = 0x60"
    by (rule request_type_mask_cases)
  show ?thesis
    unfolding CreateChromeUsbControlTransferInfo_def Let_def
      kLibusbRequestRecipientMask_eq kLibusbRequestTypeMask_eq
    using r t assms
    by (auto simp: LIBUSB_RECIPIENT_DEVICE_def
      LIBUSB_RECIPIENT_INTERFACE_def LIBUSB_RECIPIENT_ENDPOINT_def LIBUSB_RECIPIENT_OTHER_def
      LIBUSB_REQUEST_TYPE_STANDARD_def
      LIBUSB_REQUEST_TYPE_CLASS_def LIBUSB_REQUEST_TYPE_VENDOR_def
      LIBUSB_REQUEST_TYPE_RESERVED_def)
qed

lemma GetLibusbTransferContextChecked_returns:
  assumes "dev_handle t = Some h" and "handle_device h = Some dev"
  shows "GetLibusbTransferContextChecked default_context (Some t) =
           Return (SubstituteDefaultContextIfNull default_context (dev_context dev))"
  using assms by (simp add: GetLibusbTransferContextChecked_def GetLibusbTransferContext_def)

lemma CreateChromeUsbControlTransferInfo_transfer_rejects:
  assumes "transfer_type t = LIBUSB_TRANSFER_TYPE_CONTROL"
    and "transfer_length t < 8
         \<or> uint (wLength (libusb_control_transfer_get_setup t mem)) \<noteq> transfer_length t - 8"
  shows "CreateChromeUsbControlTransferInfo_transfer (Some t) mem = Return None"
  using assms
  by (auto simp: CreateChromeUsbControlTransferInfo_transfer_def LIBUSB_CONTROL_SETUP_SIZE_def
      libusb_le16_to_cpu_def Let_def)

lemma CreateChromeUsbControlTransferInfo_transfer_accepts:
  assumes "transfer_type t = LIBUSB_TRANSFER_TYPE_CONTROL"
    and "8 \<le> transfer_length t"
    and "uint (wLength (libusb_control_transfer_get_setup t mem)) = transfer_length t - 8"
  shows "\<exists>info. CreateChromeUsbControlTransferInfo_transfer (Some t) mem = Return (Some info)"
proof -
  let ?cs = "libusb_control_transfer_get_setup t mem"
  have "libusb_control_transfer_get_data t \<noteq> nullptr"
    by (simp add: libusb_control_transfer_get_data_def nullptr_def LIBUSB_CONTROL_SETUP_SIZE_def)
  then obtain info where
    "CreateChromeUsbControlTransferInfo (bmRequestType ?cs) (bRequest ?cs)
       (libusb_le16_to_cpu (wValue ?cs)) (libusb_le16_to_cpu (wIndex ?cs))
       (libusb_control_transfer_get_data t) (libusb_le16_to_cpu (wLength ?cs))
       (timeout t) mem = Return (True, info)"
    using CreateChromeUsbControlTransferInfo_returns by blast
  then show ?thesis
    using assms
    by (simp add: CreateChromeUsbControlTransferInfo_transfer_def LIBUSB_CONTROL_SETUP_SIZE_def
        Let_def libusb_le16_to_cpu_def)
qed


section \<open>Submission of a transfer\<close>

text \<open>
  C2, as stated, fails for a malformed control transfer that also carries the
  zero-packet-append flag: the flag is tested before the request is built, and the
  submission returns \<open>LIBUSB_ERROR_NOT_SUPPORTED\<close>, not the invalid-parameter code. The
  transfer below has total length 8 and a setup block that declares \<open>wLength = 1\<close>.
\<close>

theorem zero_packet_flag_precedes_validation:
  "LibusbSubmitTransfer 1 (\<lambda>_. Return 5)
     (Some (example_transfer LIBUSB_TRANSFER_TYPE_CONTROL 8 LIBUSB_TRANSFER_ADD_ZERO_PACKET))
     example_setup_memory = Return (LIBUSB_ERROR_NOT_SUPPORTED, None)
   \<and> LIBUSB_ERROR_NOT_SUPPORTED \<noteq> LIBUSB_ERROR_INVALID_PARAM
   \<and> uint (wLength (libusb_control_transfer_get_setup
        (example_transfer LIBUSB_TRANSFER_TYPE_CONTROL 8 LIBUSB_TRANSFER_ADD_ZERO_PACKET)
        example_setup_memory)) = 1"
  by (simp add: LibusbSubmitTransfer_def example_transfer_def example_handle_def
      LIBUSB_TRANSFER_ADD_ZERO_PACKET_def LIBUSB_ERROR_NOT_SUPPORTED_def
      LIBUSB_ERROR_INVALID_PARAM_def libusb_control_transfer_get_setup_def
      example_setup_memory_def load_uint16_def)


text \<open>
  C2, amended. For a control transfer that reaches the request builder (its device handle
  and the handle's device are not null, it does not carry the zero-packet-append flag, and
  its registration with the tracker returns): if its total length is below 8, or the
  little-endian \<open>wLength\<close> of its setup block differs from the total length minus 8, the
  submission returns \<open>LIBUSB_ERROR_INVALID_PARAM\<close> and dispatches nothing; otherwise it
  returns \<open>LIBUSB_SUCCESS\<close> and dispatches the control request. It does not abort in
  either case.
\<close>

theorem control_submission_validation:
  assumes control: "transfer_type t = LIBUSB_TRANSFER_TYPE_CONTROL"
    and handle: "dev_handle t = Some h"
    and dev: "handle_device h = Some dev"
    and no_zero_packet: "flags t AND LIBUSB_TRANSFER_ADD_ZERO_PACKET = 0"
    and registered: "add_async_transfer
        (SubstituteDefaultContextIfNull default_context (dev_context dev)) = Return r"
  shows "(transfer_length t < 8
            \<or> uint (wLength (libusb_control_transfer_get_setup t mem)) \<noteq> transfer_length t - 8
          \<longrightarrow> LibusbSubmitTransfer default_context add_async_transfer (Some t) mem =
                Return (LIBUSB_ERROR_INVALID_PARAM, None))
       \<and> (8 \<le> transfer_length t
            \<and> uint (wLength (libusb_control_transfer_get_setup t mem)) = transfer_length t - 8
          \<longrightarrow> (\<exists>info. LibusbSubmitTransfer default_context add_async_transfer (Some t) mem =
                Return (LIBUSB_SUCCESS,
                  Some (AsyncControlTransfer (chrome_usb_connection_handle h) info r))))"
proof (intro conjI impI)
  assume "transfer_length t < 8
      \<or> uint (wLength (libusb_control_transfer_get_setup t mem)) \<noteq> transfer_length t - 8"
  then have "CreateChromeUsbControlTransferInfo_transfer (Some t) mem = Return None"
    using control by (simp add: CreateChromeUsbControlTransferInfo_transfer_rejects)
  then show "LibusbSubmitTransfer default_context add_async_transfer (Some t) mem =
      Return (LIBUSB_ERROR_INVALID_PARAM, None)"
    by (simp add: LibusbSubmitTransfer_def control handle no_zero_packet registered
        GetLibusbTransferContextChecked_returns [OF handle dev])
next
  assume "8 \<le> transfer_length t
      \<and> uint (wLength (libusb_control_transfer_get_setup t mem)) = transfer_length t - 8"
  then obtain info where "CreateChromeUsbControlTransferInfo_transfer (Some t) mem = Return (Some info)"
    using control CreateChromeUsbControlTransferInfo_transfer_accepts by blast
  then show "\<exists>info. LibusbSubmitTransfer default_context add_async_transfer (Some t) mem =
      Return (LIBUSB_SUCCESS, Some (AsyncControlTransfer (chrome_usb_connection_handle h) info r))"
    by (simp add: LibusbSubmitTransfer_def control handle no_zero_packet registered
        GetLibusbTransferContextChecked_returns [OF handle dev])
qed


text \<open>
  The examples of the specification: total length 8 with \<open>wLength = 1\<close> is rejected, total
  length 9 with \<open>wLength = 1\<close> is accepted.
\<close>

theorem control_submission_validation_witness:
  "LibusbSubmitTransfer 1 (\<lambda>_. Return 5)
     (Some (example_transfer LIBUSB_TRANSFER_TYPE_CONTROL 8 0)) example_setup_memory =
     Return (LIBUSB_ERROR_INVALID_PARAM, None)
   \<and> (\<exists>info. LibusbSubmitTransfer 1 (\<lambda>_. Return 5)
     (Some (example_transfer LIBUSB_TRANSFER_TYPE_CONTROL 9 0)) example_setup_memory =
     Return (LIBUSB_SUCCESS, Some (AsyncControlTransfer 7 info 5)))"
  using control_submission_validation
      [of "example_transfer LIBUSB_TRANSFER_TYPE_CONTROL 8 0" example_handle example_device
          "\<lambda>_. Return 5" 1 5 example_setup_memory]
    control_submission_validation
      [of "example_transfer LIBUSB_TRANSFER_TYPE_CONTROL 9 0" example_handle example_device
          "\<lambda>_. Return 5" 1 5 example_setup_memory]
  by (simp add: example_transfer_def example_handle_def example_setup_memory_def
      libusb_control_transfer_get_setup_def load_uint16_def LIBUSB_TRANSFER_ADD_ZERO_PACKET_def)


text \<open>
  C5, as stated, fails for the isochronous kind: the submission of an isochronous transfer
  fails the check on the transfer kind and terminates the process; no status code is
  returned.
\<close>

theorem isochronous_submission_aborts:
  "LibusbSubmitTransfer 1 (\<lambda>_. Return 5)
     (Some (example_transfer LIBUSB_TRANSFER_TYPE_ISOCHRONOUS 64 0)) example_setup_memory = Abort"
  by (simp add: LibusbSubmitTransfer_def example_transfer_def
      LIBUSB_TRANSFER_TYPE_ISOCHRONOUS_def LIBUSB_TRANSFER_TYPE_CONTROL_def
      LIBUSB_TRANSFER_TYPE_BULK_def LIBUSB_TRANSFER_TYPE_INTERRUPT_def)


text \<open>
  C5, amended. The submission of an isochronous transfer aborts, and so does the
  allocation of a transfer with a non-zero number of isochronous packets. The submission
  of a control, bulk or interrupt transfer that has a device handle and carries the
  zero-packet-append flag returns \<open>LIBUSB_ERROR_NOT_SUPPORTED\<close> and dispatches nothing.
\<close>

theorem unsupported_submissions:
  "(transfer_type t = LIBUSB_TRANSFER_TYPE_ISOCHRONOUS \<longrightarrow>
      LibusbSubmitTransfer default_context add_async_transfer (Some t) mem = Abort)
   \<and> (dev_handle t \<noteq> None
        \<and> (transfer_type t = LIBUSB_TRANSFER_TYPE_CONTROL
            \<or> transfer_type t = LIBUSB_TRANSFER_TYPE_BULK
            \<or> transfer_type t = LIBUSB_TRANSFER_TYPE_INTERRUPT)
        \<and> flags t AND LIBUSB_TRANSFER_ADD_ZERO_PACKET \<noteq> 0 \<longrightarrow>
      LibusbSubmitTransfer default_context add_async_transfer (Some t) mem =
        Return (LIBUSB_ERROR_NOT_SUPPORTED, None))
   \<and> (isochronous_packet_count \<noteq> 0 \<longrightarrow> LibusbAllocTransfer isochronous_packet_count = Abort)"
  by (auto simp: LibusbSubmitTransfer_def LibusbAllocTransfer_def
      LIBUSB_TRANSFER_TYPE_ISOCHRONOUS_def LIBUSB_TRANSFER_TYPE_CONTROL_def
      LIBUSB_TRANSFER_TYPE_BULK_def LIBUSB_TRANSFER_TYPE_INTERRUPT_def
      split: option.split)

theorem unsupported_submissions_witness:
  "LibusbSubmitTransfer 1 (\<lambda>_. Return 5)
     (Some (example_transfer LIBUSB_TRANSFER_TYPE_ISOCHRONOUS 64 0)) example_setup_memory = Abort
   \<and> LibusbSubmitTransfer 1 (\<lambda>_. Return 5)
     (Some (example_transfer LIBUSB_TRANSFER_TYPE_BULK 64 LIBUSB_TRANSFER_ADD_ZERO_PACKET))
     example_setup_memory = Return (LIBUSB_ERROR_NOT_SUPPORTED, None)
   \<and> LibusbAllocTransfer 1 = Abort"
  using unsupported_submissions
      [of "example_transfer LIBUSB_TRANSFER_TYPE_ISOCHRONOUS 64 0" 1 "\<lambda>_. Return 5"
          example_setup_memory 1]
    unsupported_submissions
      [of "example_transfer LIBUSB_TRANSFER_TYPE_BULK 64 LIBUSB_TRANSFER_ADD_ZERO_PACKET" 1
          "\<lambda>_. Return 5" example_setup_memory 1]
  by (simp add: example_transfer_def LIBUSB_TRANSFER_ADD_ZERO_PACKET_def
      LIBUSB_TRANSFER_TYPE_ISOCHRONOUS_def LIBUSB_TRANSFER_TYPE_BULK_def)


section \<open>Synchronous control transfers\<close>

text \<open>
  C6. For a device handle that is not null and parameters that are valid (an outbound
  request has a data buffer), the request is built, and:
  when the platform's request succeeds and the finalization of its result yields
  \<open>LIBUSB_TRANSFER_COMPLETED\<close> (for a response below \<open>2 ^ 31\<close> bytes), the call returns
  the actual byte count written by the finalization, which is not negative;
  when the platform's request fails, the call returns the negative status
  \<open>LIBUSB_ERROR_OTHER\<close> and the store, and with it the caller's buffer, is unchanged.
\<close>

theorem sync_control_transfer_result:
  assumes handle: "device_handle_ptr = Some h"
    and valid: "req_type AND LIBUSB_ENDPOINT_DIR_MASK = LIBUSB_ENDPOINT_OUT \<longrightarrow> data_ptr \<noteq> nullptr"
  shows "\<exists>info.
      CreateChromeUsbControlTransferInfo req_type req val idx data_ptr len tmo mem = Return (True, info)
    \<and> (\<forall>payload cell mem'.
          control_transfer (chrome_usb_connection_handle h) info = Succeeded payload
          \<and> ProcessLibusbTransferResult (result_info payload) False (uint len) data_ptr (Some 0) mem =
              (LIBUSB_TRANSFER_COMPLETED, cell, mem')
          \<and> (\<forall>d. data (result_info payload) = Some d \<longrightarrow> length d < 2 ^ 31)
        \<longrightarrow> (\<exists>n. LibusbControlTransfer control_transfer device_handle_ptr req_type req val idx
                    data_ptr len tmo mem = Return (n, mem')
                \<and> 0 \<le> n \<and> cell = Some n))
    \<and> (\<not> is_successful (control_transfer (chrome_usb_connection_handle h) info)
        \<longrightarrow> LibusbControlTransfer control_transfer device_handle_ptr req_type req val idx
              data_ptr len tmo mem = Return (LIBUSB_ERROR_OTHER, mem)
            \<and> LIBUSB_ERROR_OTHER < 0)"
proof -
  obtain info where info:
    "CreateChromeUsbControlTransferInfo req_type req val idx data_ptr len tmo mem = Return (True, info)"
    using CreateChromeUsbControlTransferInfo_returns valid by blast
  have completed: "\<exists>n. LibusbControlTransfer control_transfer device_handle_ptr req_type req val idx
                    data_ptr len tmo mem = Return (n, mem') \<and> 0 \<le> n \<and> cell = Some n"
    if up: "control_transfer (chrome_usb_connection_handle h) info = Succeeded payload"
      and fin: "ProcessLibusbTransferResult (result_info payload) False (uint len) data_ptr (Some 0) mem =
              (LIBUSB_TRANSFER_COMPLETED, cell, mem')"
      and fits: "\<forall>d. data (result_info payload) = Some d \<longrightarrow> length d < 2 ^ 31"
    for payload cell mem'
  proof -
    obtain n where n: "cell = Some n" "0 \<le> n"
      using ProcessLibusbTransferResult_completed_cell [OF fin] fits by auto
    show ?thesis
      by (simp add: LibusbControlTransfer_def handle info up fin n
          LibusbTransferStatusToLibusbErrorCode_def)
  qed
  have failed: "LibusbControlTransfer control_transfer device_handle_ptr req_type req val idx
              data_ptr len tmo mem = Return (LIBUSB_ERROR_OTHER, mem)"
    if "\<not> is_successful (control_transfer (chrome_usb_connection_handle h) info)"
    using that
    by (cases "control_transfer (chrome_usb_connection_handle h) info")
      (simp_all add: LibusbControlTransfer_def handle info)
  have "LIBUSB_ERROR_OTHER < 0"
    by (simp add: LIBUSB_ERROR_OTHER_def)
  with info completed failed show ?thesis
    by blast
qed

theorem sync_control_transfer_result_witness:
  "LibusbControlTransfer (example_upstream True) (Some example_handle) 0x80 6 0 0 200 64 1000
      (\<lambda>_. 0) = Return (3, copy_n [1, 2, 3] 3 200 (\<lambda>_. 0))
   \<and> LibusbControlTransfer (example_upstream False) (Some example_handle) 0x80 6 0 0 200 64 1000
      (\<lambda>_. 0) = Return (LIBUSB_ERROR_OTHER, (\<lambda>_. 0))"
proof -
  let ?info = "\<lparr>result_code = Some kTransferResultInfoSuccessResultCode, data = Some [1, 2, 3]\<rparr>"
  have fin: "ProcessLibusbTransferResult ?info False (uint (64 :: uint16)) 200 (Some 0) (\<lambda>_. 0) =
      (LIBUSB_TRANSFER_COMPLETED, Some 3, copy_n [1, 2, 3] 3 200 (\<lambda>_. 0))"
    using ProcessLibusbTransferResult_payload [of ?info "[1, 2, 3]" False "uint (64 :: uint16)" 200 "Some 0" "\<lambda>_. 0"]
    by simp
  have valid: "(0x80 :: uint8) AND LIBUSB_ENDPOINT_DIR_MASK = LIBUSB_ENDPOINT_OUT \<longrightarrow> (200 :: addr) \<noteq> nullptr"
    by (simp add: nullptr_def)
  show ?thesis
    using sync_control_transfer_result
        [where device_handle_ptr = "Some example_handle" and h = example_handle
           and req_type = "0x80" and req = 6 and val = 0 and idx = 0 and data_ptr = 200
           and len = 64 and tmo = 1000 and mem = "\<lambda>_. 0"
           and control_transfer = "example_upstream True", OF refl valid]
      sync_control_transfer_result
        [where device_handle_ptr = "Some example_handle" and h = example_handle
           and req_type = "0x80" and req = 6 and val = 0 and idx = 0 and data_ptr = 200
           and len = 64 and tmo = 1000 and mem = "\<lambda>_. 0"
           and control_transfer = "example_upstream False", OF refl valid]
      fin
    by (auto simp: example_upstream_def)
qed

text \<open>
  The synchronous call hands the data length to the finalization: the same two-byte
  response to a request for one byte at address 108 stores one byte and leaves 109 alone.
\<close>

lemma sync_control_transfer_clamps_to_data_length:
  "LibusbControlTransfer
     (\<lambda>_ _. Succeeded \<lparr>result_info =
        \<lparr>result_code = Some kTransferResultInfoSuccessResultCode, data = Some [0xAA, 0xBB]\<rparr>\<rparr>)
     (Some example_handle) 0x80 6 0 0 108 1 1000 example_setup_memory =
     Return (1, copy_n [0xAA, 0xBB] 1 108 example_setup_memory)
   \<and> copy_n [0xAA, 0xBB] 1 108 example_setup_memory 108 = 0xAA
   \<and> copy_n [0xAA, 0xBB] 1 108 example_setup_memory 109 = 0"
proof -
  let ?info = "\<lparr>result_code = Some kTransferResultInfoSuccessResultCode, data = Some [0xAA, 0xBB]\<rparr>"
  have fin: "ProcessLibusbTransferResult ?info False 1 108 (Some 0) example_setup_memory =
      (LIBUSB_TRANSFER_COMPLETED, Some 1, copy_n [0xAA, 0xBB] 1 108 example_setup_memory)"
    using ProcessLibusbTransferResult_payload
      [of ?info "[0xAA, 0xBB]" False 1 108 "Some 0" example_setup_memory]
    by simp
  obtain info where
    "CreateChromeUsbControlTransferInfo 0x80 6 0 0 108 1 1000 example_setup_memory =
       Return (True, info)"
    using CreateChromeUsbControlTransferInfo_returns [of "0x80" 108 6 0 0 1 1000 example_setup_memory]
    by (auto simp: nullptr_def)
  then have "LibusbControlTransfer (\<lambda>_ _. Succeeded \<lparr>result_info = ?info\<rparr>)
      (Some example_handle) 0x80 6 0 0 108 1 1000 example_setup_memory =
      Return (1, copy_n [0xAA, 0xBB] 1 108 example_setup_memory)"
    by (simp add: LibusbControlTransfer_def fin LibusbTransferStatusToLibusbErrorCode_def)
  then show ?thesis
    by (simp add: copy_n_def example_setup_memory_def)
qed

end
